theory Spec2Isabelle
  imports Main
begin

section \<open>Polymer data-binding expression scanner\<close>

text \<open>
  A shallow embedding of \<^verbatim>\<open>src/polymer/expression-scanner.ts\<close>: the delimiter
  scanner, the source-range translator, the grammar validator and the extractors for
  text nodes and attributes.

  Strings are lists of characters; one list element stands for one UTF-16 code unit of
  the JavaScript string, so \<open>length\<close> is \<^verbatim>\<open>.length\<close> and list positions are
  string indexes. The alphabet is that of \<^typ>\<open>char\<close> (code units below 256), whose line
  terminators are line feed and carriage return. String indexes are natural numbers
  and an absent index (\<^verbatim>\<open>-1\<close> of \<^verbatim>\<open>indexOf\<close>, \<^verbatim>\<open>null\<close> of \<^verbatim>\<open>exec\<close>) is \<open>None\<close>.
  Lines and columns of source ranges are integers.

  Functions that push onto the caller's \<^verbatim>\<open>results\<close> and \<^verbatim>\<open>warnings\<close> arrays take the
  two sequences and return them updated. Names are those of the source; a name carries
  a prime where the plain name is a keyword of Isabelle or already names a field of
  another record (\<open>file'\<close>, \<open>end'\<close>, \<open>line'\<close>, \<open>value'\<close>, \<open>name'\<close>, \<open>expressionText'\<close>,
  \<open>direction'\<close>), and the leading underscore of a private method is dropped.
\<close>

subsection \<open>Source ranges\<close>

record SourcePosition =
  line :: int
  column :: int

record SourceRange =
  file' :: string
  start :: SourcePosition
  end' :: SourcePosition

record LocationOffset =
  line' :: int
  col :: int

subsection \<open>String primitives of the host language\<close>

text \<open>\<^verbatim>\<open>str.indexOf(searchString, position)\<close>: the least index at or after the
  (clamped) position where the search string occurs.\<close>

fun indexOfFrom :: "string \<Rightarrow> string \<Rightarrow> nat \<Rightarrow> nat option" where
  "indexOfFrom pat [] i = (if pat = [] then Some i else None)"
| "indexOfFrom pat (c # cs) i =
     (if take (length pat) (c # cs) = pat then Some i else indexOfFrom pat cs (Suc i))"

definition indexOf :: "string \<Rightarrow> string \<Rightarrow> nat \<Rightarrow> nat option" where
  "indexOf searchString str position =
     (let p = min position (length str) in indexOfFrom searchString (drop p str) p)"

text \<open>\<^verbatim>\<open>str.slice(a, b)\<close> for non-negative indexes.\<close>

definition slice :: "string \<Rightarrow> nat \<Rightarrow> nat \<Rightarrow> string" where
  "slice str a b = take (b - a) (drop a str)"

subsection \<open>Delimiter scanner\<close>

text \<open>The \<^verbatim>\<open>direction\<close> of a binding: \<open>Mustache\<close> is \<^verbatim>\<open>'{'\<close>, \<open>Bracket\<close> is \<^verbatim>\<open>'['\<close>.\<close>

datatype Direction = Mustache | Bracket

record RawDatabinding =
  expressionText :: string
  startIndex :: nat
  endIndex :: nat
  direction :: Direction

text \<open>One \<^verbatim>\<open>openers.exec(str)\<close> of the global regular expression \<^verbatim>\<open>/{{|\[\[/g\<close>
  with \<^verbatim>\<open>lastIndex\<close> as given: the leftmost match at or after \<^verbatim>\<open>lastIndex\<close>, as its
  index and matched text.\<close>

fun openersExecFrom :: "string \<Rightarrow> nat \<Rightarrow> (nat \<times> string) option" where
  "openersExecFrom [] i = None"
| "openersExecFrom (c # cs) i =
     (if take 2 (c # cs) = ''{{'' then Some (i, ''{{'')
      else if take 2 (c # cs) = ''[['' then Some (i, ''[['')
      else openersExecFrom cs (Suc i))"

definition openersExec :: "string \<Rightarrow> nat \<Rightarrow> (nat \<times> string) option" where
  "openersExec str lastIndex = openersExecFrom (drop lastIndex str) lastIndex"

lemma take_eq_length_le: "take n xs = ys \<Longrightarrow> length ys \<le> length xs"
  by auto

lemma openersExecFrom_bounds:
  "openersExecFrom s i = Some (j, m) \<Longrightarrow> i \<le> j \<and> j + 2 \<le> i + length s"
proof (induction s arbitrary: i)
  case Nil
  then show ?case by simp
next
  case (Cons c cs)
  show ?case
  proof (cases "take 2 (c # cs) = ''{{'' \<or> take 2 (c # cs) = ''[[''")
    case True
    then have "2 \<le> length (c # cs)"
      by (cases cs) auto
    with True Cons.prems show ?thesis
      by (auto split: if_splits)
  next
    case False
    then have "openersExecFrom (c # cs) i = openersExecFrom cs (Suc i)"
      by (simp only: openersExecFrom.simps de_Morgan_disj if_False)
    with Cons.prems have "openersExecFrom cs (Suc i) = Some (j, m)"
      by (simp only:)
    from Cons.IH [OF this] show ?thesis by simp
  qed
qed

lemma openersExec_bounds:
  "openersExec str i = Some (j, m) \<Longrightarrow> i \<le> j \<and> j + 2 \<le> length str"
proof -
  assume a: "openersExec str i = Some (j, m)"
  then have "i \<le> length str"
    by (cases "i \<le> length str") (simp_all add: openersExec_def)
  with openersExecFrom_bounds [of "drop i str" i j m] a show ?thesis
    by (simp add: openersExec_def)
qed

lemma indexOfFrom_ge: "indexOfFrom pat s i = Some j \<Longrightarrow> i \<le> j"
proof (induction s arbitrary: i)
  case Nil
  then show ?case by (simp split: if_splits)
next
  case (Cons c cs)
  then show ?case
    by (fastforce split: if_splits)
qed

lemma indexOfFrom_le_length:
  "indexOfFrom pat s i = Some j \<Longrightarrow> j + length pat \<le> i + length s"
proof (induction s arbitrary: i)
  case Nil
  then show ?case by (simp split: if_splits)
next
  case (Cons c cs)
  show ?case
  proof (cases "take (length pat) (c # cs) = pat")
    case True
    then have "length pat \<le> length (c # cs)"
      by (rule take_eq_length_le)
    with True Cons.prems show ?thesis by simp
  next
    case False
    with Cons.prems have "indexOfFrom pat cs (Suc i) = Some j" by simp
    from Cons.IH [OF this] show ?thesis by simp
  qed
qed

lemma indexOf_ge_min: "indexOf pat str p = Some j \<Longrightarrow> min p (length str) \<le> j"
  using indexOfFrom_ge [of pat "drop (min p (length str)) str" "min p (length str)" j]
  by (simp add: indexOf_def Let_def)

lemma indexOf_ge: "indexOf pat str p = Some j \<Longrightarrow> p \<le> length str \<Longrightarrow> p \<le> j"
  using indexOf_ge_min [of pat str p j] by simp

lemma indexOf_le_length: "indexOf pat str p = Some j \<Longrightarrow> j + length pat \<le> length str"
  using indexOfFrom_le_length [of pat "drop (min p (length str)) str" "min p (length str)" j]
  by (simp add: indexOf_def Let_def)

text \<open>The \<^verbatim>\<open>while (match = openers.exec(str))\<close> loop of \<^verbatim>\<open>findDatabindingInString\<close>; the
  state is \<^verbatim>\<open>openers.lastIndex\<close> and the \<^verbatim>\<open>expressions\<close> array.\<close>

function findDatabindingLoop ::
  "string \<Rightarrow> nat \<Rightarrow> RawDatabinding list \<Rightarrow> RawDatabinding list" where
  "findDatabindingLoop str lastIndex expressions =
     (case openersExec str lastIndex of
        None \<Rightarrow> expressions
      | Some (index, matchedOpeners) \<Rightarrow>
          (case indexOf (if matchedOpeners = ''{{'' then ''}}'' else '']]'') str (index + 2) of
             None \<Rightarrow> expressions
           | Some closeIndex \<Rightarrow>
               findDatabindingLoop str (closeIndex + 2)
                 (expressions @
                   [\<lparr>expressionText = slice str (index + 2) closeIndex,
                     startIndex = index + 2,
                     endIndex = closeIndex,
                     direction = (if matchedOpeners = ''{{'' then Mustache else Bracket)\<rparr>])))"
  by pat_completeness auto
termination
proof (relation "measure (\<lambda>(str, lastIndex, expressions). length str - lastIndex)")
  show "wf (measure (\<lambda>(str, lastIndex, expressions). length str - lastIndex))"
    by simp
next
  fix str :: string and lastIndex :: nat and expressions :: "RawDatabinding list"
    and x2 :: "nat \<times> string" and index :: nat and matchedOpeners :: string and closeIndex :: nat
  assume ex: "openersExec str lastIndex = Some x2"
    and x2: "(index, matchedOpeners) = x2"
    and io: "indexOf (if matchedOpeners = ''{{'' then ''}}'' else '']]'') str (index + 2)
               = Some closeIndex"
  from ex x2 have b: "lastIndex \<le> index \<and> index + 2 \<le> length str"
    using openersExec_bounds [of str lastIndex index matchedOpeners] by simp
  from io b have "index + 2 \<le> closeIndex"
    using indexOf_ge by blast
  moreover from io have "closeIndex + 2 \<le> length str"
    using indexOf_le_length [OF io] by (simp split: if_splits)
  ultimately show
    "((str, closeIndex + 2,
        expressions @
          [\<lparr>expressionText = slice str (index + 2) closeIndex, startIndex = index + 2,
            endIndex = closeIndex,
            direction = (if matchedOpeners = ''{{'' then Mustache else Bracket)\<rparr>]),
       (str, lastIndex, expressions))
      \<in> measure (\<lambda>(str, lastIndex, expressions). length str - lastIndex)"
    using b by simp
qed

definition findDatabindingInString :: "string \<Rightarrow> RawDatabinding list" where
  "findDatabindingInString str = findDatabindingLoop str 0 []"

subsection \<open>Source-range translator\<close>

text \<open>The \<^verbatim>\<open>while (index !== -1)\<close> loop of \<^verbatim>\<open>findNewlineIndexes\<close>; the state is
  \<^verbatim>\<open>index\<close> and the \<^verbatim>\<open>indexes\<close> array.\<close>

function findNewlineLoop :: "string \<Rightarrow> nat option \<Rightarrow> nat list \<Rightarrow> nat list" where
  "findNewlineLoop str None indexes = indexes"
| "findNewlineLoop str (Some index) indexes =
     findNewlineLoop str (indexOf ''\<newline>'' str (index + 1)) (indexes @ [index])"
  by pat_completeness auto
termination
proof (relation "measure (\<lambda>(str, index, indexes).
         case index of None \<Rightarrow> 0 | Some i \<Rightarrow> Suc (Suc (length str) - i))")
  show "wf (measure (\<lambda>(str, index, indexes).
         case index of None \<Rightarrow> 0 | Some i \<Rightarrow> Suc (Suc (length str) - i)))"
    by simp
next
  fix str :: string and index :: nat and indexes :: "nat list"
  show "((str, indexOf ''\<newline>'' str (index + 1), indexes @ [index]),
          (str, Some index, indexes))
        \<in> measure (\<lambda>(str, index, indexes).
             case index of None \<Rightarrow> 0 | Some i \<Rightarrow> Suc (Suc (length str) - i))"
  proof (cases "indexOf ''\<newline>'' str (index + 1)")
    case None
    then show ?thesis by simp
  next
    case (Some j)
    have "j + 1 \<le> length str"
      using indexOf_le_length [OF Some] by simp
    moreover have "index + 1 \<le> j"
    proof (cases "index + 1 \<le> length str")
      case True
      with Some show ?thesis by (rule indexOf_ge)
    next
      case False
      with \<open>j + 1 \<le> length str\<close> indexOf_ge_min [OF Some] show ?thesis by simp
    qed
    ultimately show ?thesis using Some by simp
  qed
qed

definition findNewlineIndexes :: "string \<Rightarrow> nat list" where
  "findNewlineIndexes str = findNewlineLoop str (indexOf ''\<newline>'' str 0) []"

text \<open>The \<^verbatim>\<open>for (const index of newlineIndexes)\<close> loop of \<^verbatim>\<open>indexesToSourceRange\<close>,
  with its \<^verbatim>\<open>break\<close>; the state is the four counters \<^verbatim>\<open>startLineNumLinesIntoText\<close>,
  \<^verbatim>\<open>startOfLineIndex\<close>, \<^verbatim>\<open>endLineNumLinesIntoText\<close>, \<^verbatim>\<open>endOfLineIndex\<close>.\<close>

fun indexesLoop ::
  "nat \<Rightarrow> nat \<Rightarrow> nat list \<Rightarrow> nat \<times> nat \<times> nat \<times> nat \<Rightarrow> nat \<times> nat \<times> nat \<times> nat" where
  "indexesLoop startIdx endIdx [] counters = counters"
| "indexesLoop startIdx endIdx (index # rest)
     (startLineNum, startOfLineIndex, endLineNum, endOfLineIndex) =
     (let (startLineNum1, startOfLineIndex1) =
            (if index < startIdx then (startLineNum + 1, index + 1)
             else (startLineNum, startOfLineIndex))
      in if index < endIdx
         then indexesLoop startIdx endIdx rest
                (startLineNum1, startOfLineIndex1, endLineNum + 1, index + 1)
         else (startLineNum1, startOfLineIndex1, endLineNum, endOfLineIndex))"

definition indexesToSourceRange :: "nat \<Rightarrow> nat \<Rightarrow> string \<Rightarrow> nat list \<Rightarrow> SourceRange" where
  "indexesToSourceRange startIdx endIdx filename newlineIndexes =
     (case indexesLoop startIdx endIdx newlineIndexes (0, 0, 0, 0) of
        (startLineNum, startOfLineIndex, endLineNum, endOfLineIndex) \<Rightarrow>
          \<lparr>file' = filename,
           start = \<lparr>line = int startLineNum, column = int startIdx - int startOfLineIndex\<rparr>,
           end' = \<lparr>line = int endLineNum, column = int endIdx - int endOfLineIndex\<rparr>\<rparr>)"

text \<open>Modelled from the spec: \<^verbatim>\<open>correctSourceRange\<close> is imported from
  \<^verbatim>\<open>../model/model\<close>, which is not among the sources. The specification (4.3) composes
  a relative range with the absolute offset of the string's start: ``if the relative
  range starts on relative line 0, add the offset's column to the range's start/end
  column only when the corresponding line number is still 0; always add the offset's
  line to every line number.''\<close>

definition correctSourceRange :: "SourceRange \<Rightarrow> LocationOffset \<Rightarrow> SourceRange" where
  "correctSourceRange sourceRange locationOffset =
     \<lparr>file' = file' sourceRange,
      start =
        \<lparr>line = line (start sourceRange) + line' locationOffset,
         column = column (start sourceRange) +
           (if line (start sourceRange) = 0 then col locationOffset else 0)\<rparr>,
      end' =
        \<lparr>line = line (end' sourceRange) + line' locationOffset,
         column = column (end' sourceRange) +
           (if line (start sourceRange) = 0 \<and> line (end' sourceRange) = 0
            then col locationOffset else 0)\<rparr>\<rparr>"

subsection \<open>Diagnostics\<close>

text \<open>Modelled from the spec: the \<^verbatim>\<open>Severity\<close> enumeration is imported from
  \<^verbatim>\<open>../model/model\<close>, which is not among the sources. The specification (3, 7) gives
  a warning one of two severities, INFO and WARNING.\<close>

datatype Severity = INFO | WARNING

text \<open>The \<^verbatim>\<open>sourceRange\<close> of a warning or of a property comes from
  \<^verbatim>\<open>sourceRangeForNode(node)!\<close>, which is \<^verbatim>\<open>undefined\<close> for a node without location; the
  non-null assertion is erased at run time, so the field is optional here.\<close>

record Warning =
  code :: string
  message :: string
  warningRange :: "SourceRange option"
  severity :: Severity

subsection \<open>Syntax trees of the expression language\<close>

text \<open>The ESTree nodes the validator distinguishes, each with its optional \<^verbatim>\<open>loc\<close>
  (1-indexed lines). \<open>OtherNode\<close> and \<open>OtherStatement\<close> stand for a node of any other
  \<^verbatim>\<open>type\<close> and carry that type's name; the validator never looks inside them.\<close>

record SourceLocation =
  loc_start :: SourcePosition
  loc_end :: SourcePosition

datatype Node =
    Literal "SourceLocation option"
  | Identifier string "SourceLocation option"
  | MemberExpression Node Node "SourceLocation option"
  | CallExpression Node "Node list" "SourceLocation option"
  | UnaryExpression string Node "SourceLocation option"
  | OtherNode string "SourceLocation option"

fun nodeType :: "Node \<Rightarrow> string" where
  "nodeType (Literal l) = ''Literal''"
| "nodeType (Identifier n l) = ''Identifier''"
| "nodeType (MemberExpression obj property l) = ''MemberExpression''"
| "nodeType (CallExpression callee args l) = ''CallExpression''"
| "nodeType (UnaryExpression operator argument l) = ''UnaryExpression''"
| "nodeType (OtherNode t l) = t"

fun loc :: "Node \<Rightarrow> SourceLocation option" where
  "loc (Literal l) = l"
| "loc (Identifier n l) = l"
| "loc (MemberExpression obj property l) = l"
| "loc (CallExpression callee args l) = l"
| "loc (UnaryExpression operator argument l) = l"
| "loc (OtherNode t l) = l"

datatype Statement =
    ExpressionStatement Node "SourceLocation option"
  | OtherStatement string "SourceLocation option"

datatype Program = Program "Statement list" "SourceLocation option"

subsection \<open>Grammar validator\<close>

record Property =
  name' :: string
  propertyRange :: "SourceRange option"

record DatabindingExpression =
  sourceRange :: SourceRange
  warnings :: "Warning list"
  expressionText' :: string
  expressionAst :: Program
  locationOffset :: LocationOffset
  properties :: "Property list"

text \<open>\<^verbatim>\<open>sourceRangeForNode(node)\<close>; the node is given by its \<^verbatim>\<open>loc\<close>, the only part
  of it the method reads.\<close>

definition sourceRangeForNode ::
  "DatabindingExpression \<Rightarrow> SourceLocation option \<Rightarrow> SourceRange option" where
  "sourceRangeForNode this nodeLoc =
     (case nodeLoc of
        None \<Rightarrow> None
      | Some l \<Rightarrow>
          Some (correctSourceRange
            \<lparr>file' = file' (sourceRange this),
             start = \<lparr>line = line (loc_start l) - 1, column = column (loc_start l)\<rparr>,
             end' = \<lparr>line = line (loc_end l) - 1, column = column (loc_end l)\<rparr>\<rparr>
            (locationOffset this)))"

definition validationWarning ::
  "DatabindingExpression \<Rightarrow> string \<Rightarrow> SourceLocation option \<Rightarrow> Warning" where
  "validationWarning this msg nodeLoc =
     \<lparr>code = ''invalid-polymer-expression'',
      message = msg,
      warningRange = sourceRangeForNode this nodeLoc,
      severity = WARNING\<rparr>"

text \<open>The last statement of \<^verbatim>\<open>_extractAndValidateSubExpression\<close>: the warning for a
  construct outside the grammar.\<close>

definition notExpectedHere :: "Node \<Rightarrow> DatabindingExpression \<Rightarrow> DatabindingExpression" where
  "notExpectedHere expression this =
     this\<lparr>warnings := warnings this @
       [validationWarning this
          (''Only simple syntax is supported in Polymer databinding expressions. '' @
             nodeType expression @ '' not expected here.'')
          (loc expression)]\<rparr>"

fun extractAndValidateSubExpression ::
  "Node \<Rightarrow> bool \<Rightarrow> DatabindingExpression \<Rightarrow> DatabindingExpression" where
  "extractAndValidateSubExpression (Literal l) callAllowed this = this"
| "extractAndValidateSubExpression (Identifier n l) callAllowed this =
     this\<lparr>properties := properties this @
       [\<lparr>name' = n, propertyRange = sourceRangeForNode this l\<rparr>]\<rparr>"
| "extractAndValidateSubExpression (MemberExpression obj property l) callAllowed this =
     extractAndValidateSubExpression obj False this"
| "extractAndValidateSubExpression (CallExpression callee args l) callAllowed this =
     (if callAllowed
      then fold (\<lambda>arg acc. extractAndValidateSubExpression arg False acc) args
             (extractAndValidateSubExpression callee False this)
      else notExpectedHere (CallExpression callee args l) this)"
| "extractAndValidateSubExpression (UnaryExpression operator argument l) callAllowed this =
     notExpectedHere (UnaryExpression operator argument l) this"
| "extractAndValidateSubExpression (OtherNode t l) callAllowed this =
     notExpectedHere (OtherNode t l) this"

text \<open>Decimal digits of a number, for the template literal of the message.\<close>

fun string_of_nat :: "nat \<Rightarrow> string" where
  "string_of_nat n =
     (let lastDigit = ''0123456789'' ! (n mod 10)
      in if n div 10 = 0 then [lastDigit] else string_of_nat (n div 10) @ [lastDigit])"

definition extractPropertiesAndValidate :: "DatabindingExpression \<Rightarrow> DatabindingExpression" where
  "extractPropertiesAndValidate this =
     (case expressionAst this of
        Program body programLoc \<Rightarrow>
          (if length body \<noteq> 1
           then this\<lparr>warnings := warnings this @
                  [validationWarning this
                     (''Expected one expression, got '' @ string_of_nat (length body))
                     programLoc]\<rparr>
           else
             (case body ! 0 of
                OtherStatement t l \<Rightarrow>
                  this\<lparr>warnings := warnings this @
                    [validationWarning this (''Expect an expression, not a '' @ t) l]\<rparr>
              | ExpressionStatement expression l \<Rightarrow>
                  (case expression of
                     UnaryExpression operator argument el \<Rightarrow>
                       (if operator \<noteq> ''!''
                        then this\<lparr>warnings := warnings this @
                               [validationWarning this
                                  ''Only the logical not (!) operator is supported.'' el]\<rparr>
                        else extractAndValidateSubExpression argument True this)
                   | _ \<Rightarrow> extractAndValidateSubExpression expression True this))))"

text \<open>The constructor of \<^verbatim>\<open>DatabindingExpression\<close>.\<close>

definition newDatabindingExpression ::
  "SourceRange \<Rightarrow> string \<Rightarrow> Program \<Rightarrow> DatabindingExpression" where
  "newDatabindingExpression srcRange exprText ast =
     extractPropertiesAndValidate
       \<lparr>sourceRange = srcRange,
        warnings = [],
        expressionText' = exprText,
        expressionAst = ast,
        locationOffset = \<lparr>line' = line (start srcRange), col = column (start srcRange)\<rparr>,
        properties = []\<rparr>"

text \<open>The fields of an expression other than its properties and warnings.\<close>

definition frame :: "DatabindingExpression \<Rightarrow> SourceRange \<times> string \<times> Program \<times> LocationOffset" where
  "frame this = (sourceRange this, expressionText' this, expressionAst this, locationOffset this)"

subsection \<open>Parsing one candidate expression\<close>

text \<open>The expression parser \<^verbatim>\<open>parseJs(content, file, locationOffset, errorCode)\<close> is a
  collaborator outside the file; every function that calls it takes it as its first
  argument.\<close>

datatype ParseResult = Success Program | Failure Warning

type_synonym Parser = "string \<Rightarrow> string \<Rightarrow> LocationOffset \<Rightarrow> string \<Rightarrow> ParseResult"

text \<open>\<^verbatim>\<open>/\.(\*|\d+)/.test(content)\<close>: somewhere in the text a dot is followed by a star
  or by a decimal digit.\<close>

fun subPropertyTest :: "string \<Rightarrow> bool" where
  "subPropertyTest (c # d # cs) =
     (if c = CHR ''.'' \<and> (d = CHR ''*'' \<or> d \<in> set ''0123456789'') then True
      else subPropertyTest (d # cs))"
| "subPropertyTest cs = False"

definition parseExpression :: "Parser \<Rightarrow> string \<Rightarrow> SourceRange \<Rightarrow> ParseResult option" where
  "parseExpression parseJs content expressionSourceRange =
     (let expressionOffset =
            \<lparr>line' = line (start expressionSourceRange),
             col = column (start expressionSourceRange)\<rparr>;
          parseResult =
            parseJs content (file' expressionSourceRange) expressionOffset
              ''polymer-expression-parse-error''
      in case parseResult of
           Success program \<Rightarrow> Some parseResult
         | Failure warning \<Rightarrow>
             (if subPropertyTest content then None else Some parseResult))"

subsection \<open>Site extractors\<close>

text \<open>The HTML tree and the parsed document are collaborators outside the file. A node
  is given by the fields the extractors read; the document by its two methods
  \<^verbatim>\<open>sourceRangeForNode\<close> and \<^verbatim>\<open>sourceRangeForAttributeValue\<close>, each of which may
  return \<^verbatim>\<open>undefined\<close>.\<close>

record ASTAttribute =
  name :: string
  "value" :: string

record ASTNode =
  nodeName :: string
  attrs :: "ASTAttribute list option"
  value' :: "string option"

record ParsedHtmlDocument =
  htmlSourceRangeForNode :: "ASTNode \<Rightarrow> SourceRange option"
  sourceRangeForAttributeValue :: "ASTNode \<Rightarrow> string \<Rightarrow> bool \<Rightarrow> SourceRange option"

datatype HtmlDatabindingExpression =
    TextNodeDatabindingExpression Direction ASTNode DatabindingExpression
  | AttributeDatabindingExpression ASTNode bool Direction "string option" ASTAttribute
      DatabindingExpression

text \<open>The fields of the two classes; \<open>base\<close> is the part inherited from
  \<^verbatim>\<open>DatabindingExpression\<close>.\<close>

fun base :: "HtmlDatabindingExpression \<Rightarrow> DatabindingExpression" where
  "base (TextNodeDatabindingExpression d n e) = e"
| "base (AttributeDatabindingExpression n c d ev a e) = e"

fun direction' :: "HtmlDatabindingExpression \<Rightarrow> Direction" where
  "direction' (TextNodeDatabindingExpression d n e) = d"
| "direction' (AttributeDatabindingExpression n c d ev a e) = d"

fun isCompleteBinding :: "HtmlDatabindingExpression \<Rightarrow> bool option" where
  "isCompleteBinding (TextNodeDatabindingExpression d n e) = None"
| "isCompleteBinding (AttributeDatabindingExpression n c d ev a e) = Some c"

fun eventName :: "HtmlDatabindingExpression \<Rightarrow> string option" where
  "eventName (TextNodeDatabindingExpression d n e) = None"
| "eventName (AttributeDatabindingExpression n c d ev a e) = ev"

text \<open>The constructors of the two classes: the super constructor runs the validator.\<close>

definition newTextNodeDatabindingExpression ::
  "Direction \<Rightarrow> ASTNode \<Rightarrow> SourceRange \<Rightarrow> string \<Rightarrow> Program \<Rightarrow> HtmlDatabindingExpression" where
  "newTextNodeDatabindingExpression d astNode srcRange exprText ast =
     TextNodeDatabindingExpression d astNode (newDatabindingExpression srcRange exprText ast)"

definition newAttributeDatabindingExpression ::
  "ASTNode \<Rightarrow> bool \<Rightarrow> Direction \<Rightarrow> string option \<Rightarrow> ASTAttribute \<Rightarrow> SourceRange \<Rightarrow> string \<Rightarrow>
     Program \<Rightarrow> HtmlDatabindingExpression" where
  "newAttributeDatabindingExpression astNode complete d ev attribute srcRange exprText ast =
     AttributeDatabindingExpression astNode complete d ev attribute
       (newDatabindingExpression srcRange exprText ast)"

text \<open>The tail of both \<^verbatim>\<open>for (const dataBinding of dataBindings)\<close> bodies: what is
  pushed for a parse result, \<open>mk\<close> being the constructor call of the site.\<close>

definition pushParseResult ::
  "ParseResult option \<Rightarrow> (Program \<Rightarrow> HtmlDatabindingExpression) \<Rightarrow>
     HtmlDatabindingExpression list \<times> Warning list \<Rightarrow>
     HtmlDatabindingExpression list \<times> Warning list" where
  "pushParseResult parseResult mk acc =
     (case acc of (results, warningsOut) \<Rightarrow>
        (case parseResult of
           None \<Rightarrow> (results, warningsOut)
         | Some (Failure warning) \<Rightarrow> (results, warningsOut @ [warning])
         | Some (Success program) \<Rightarrow>
             (let expression = mk program
              in (results @ [expression], warningsOut @ warnings (base expression)))))"

text \<open>Both loop bodies start by translating the indexes of the binding into a range
  relative to the string and composing it with the offset of the string's start.\<close>

definition bindingSourceRange ::
  "SourceRange \<Rightarrow> nat list \<Rightarrow> LocationOffset \<Rightarrow> RawDatabinding \<Rightarrow> SourceRange" where
  "bindingSourceRange valueRange newlineIndexes startOffset dataBinding =
     (let sourceRangeWithinString =
            indexesToSourceRange (startIndex dataBinding) (endIndex dataBinding)
              (file' valueRange) newlineIndexes
      in correctSourceRange sourceRangeWithinString startOffset)"

text \<open>The body of the loop of \<^verbatim>\<open>extractDataBindingsFromTextNode\<close>.\<close>

definition textNodeBinding ::
  "Parser \<Rightarrow> ASTNode \<Rightarrow> SourceRange \<Rightarrow> nat list \<Rightarrow> LocationOffset \<Rightarrow> RawDatabinding \<Rightarrow>
     HtmlDatabindingExpression list \<times> Warning list \<Rightarrow>
     HtmlDatabindingExpression list \<times> Warning list" where
  "textNodeBinding parseJs node nodeSourceRange newlineIndexes startOfTextNodeOffset
       dataBinding acc =
     (let srcRange =
            bindingSourceRange nodeSourceRange newlineIndexes startOfTextNodeOffset dataBinding;
          parseResult = parseExpression parseJs (expressionText dataBinding) srcRange
      in pushParseResult parseResult
           (newTextNodeDatabindingExpression (direction dataBinding) node srcRange
              (expressionText dataBinding))
           acc)"

definition extractDataBindingsFromTextNode ::
  "Parser \<Rightarrow> ParsedHtmlDocument \<Rightarrow> ASTNode \<Rightarrow>
     HtmlDatabindingExpression list \<Rightarrow> Warning list \<Rightarrow>
     HtmlDatabindingExpression list \<times> Warning list" where
  "extractDataBindingsFromTextNode parseJs document node results warningsOut =
     (let text = (case value' node of None \<Rightarrow> [] | Some v \<Rightarrow> v);
          dataBindings = findDatabindingInString text
      in if length dataBindings = 0 then (results, warningsOut)
         else
           (let newlineIndexes = findNewlineIndexes text
            in case htmlSourceRangeForNode document node of
                 None \<Rightarrow> (results, warningsOut)
               | Some nodeSourceRange \<Rightarrow>
                   fold (textNodeBinding parseJs node nodeSourceRange newlineIndexes
                           \<lparr>line' = line (start nodeSourceRange),
                            col = column (start nodeSourceRange)\<rparr>)
                     dataBindings (results, warningsOut)))"

text \<open>\<^verbatim>\<open>expressionText.match(/(.*)::(.*)/)\<close>, as the backtracking matcher runs it. The
  dot matches any character but a line terminator, and both stars are greedy: at a
  start position the first group takes the longest run of such characters after which
  \<^verbatim>\<open>::\<close> follows (\<open>eventMatchAt\<close> tries the lengths downwards), the second group the
  whole run after the separator; when no length fits, the match is tried at the next
  start position. The result is the pair of the two groups.\<close>

definition isLineTerminator :: "char \<Rightarrow> bool" where
  "isLineTerminator c = (c = CHR 0x0A \<or> c = CHR 0x0D)"

definition dotStar :: "string \<Rightarrow> string" where
  "dotStar s = takeWhile (\<lambda>c. \<not> isLineTerminator c) s"

fun eventMatchAt :: "string \<Rightarrow> nat \<Rightarrow> (string \<times> string) option" where
  "eventMatchAt s 0 =
     (if take 2 s = ''::'' then Some ([], dotStar (drop 2 s)) else None)"
| "eventMatchAt s (Suc k) =
     (if take 2 (drop (Suc k) s) = ''::''
      then Some (take (Suc k) s, dotStar (drop (Suc k + 2) s))
      else eventMatchAt s k)"

fun eventMatch :: "string \<Rightarrow> (string \<times> string) option" where
  "eventMatch [] = eventMatchAt [] 0"
| "eventMatch (c # cs) =
     (case eventMatchAt (c # cs) (length (dotStar (c # cs))) of
        Some groups \<Rightarrow> Some groups
      | None \<Rightarrow> eventMatch cs)"

text \<open>Lines 364 to 372 of \<^verbatim>\<open>extractDataBindingsFromAttr\<close>: the expression text that is
  parsed and the event name of one binding.\<close>

definition splitEventName :: "RawDatabinding \<Rightarrow> string \<times> string option" where
  "splitEventName dataBinding =
     (if direction dataBinding = Mustache
      then (case eventMatch (expressionText dataBinding) of
              Some (group1, group2) \<Rightarrow> (group1, Some group2)
            | None \<Rightarrow> (expressionText dataBinding, None))
      else (expressionText dataBinding, None))"

text \<open>The body of the loop of \<^verbatim>\<open>extractDataBindingsFromAttr\<close>.\<close>

definition attrBinding ::
  "Parser \<Rightarrow> ASTNode \<Rightarrow> ASTAttribute \<Rightarrow> SourceRange \<Rightarrow> LocationOffset \<Rightarrow> nat list \<Rightarrow>
     RawDatabinding \<Rightarrow>
     HtmlDatabindingExpression list \<times> Warning list \<Rightarrow>
     HtmlDatabindingExpression list \<times> Warning list" where
  "attrBinding parseJs node attr attributeValueRange attributeOffset newlineIndexes
       dataBinding acc =
     (let isFullAttributeBinding =
            (startIndex dataBinding = 2 \<and> endIndex dataBinding + 2 = length (value attr));
          (exprText, ev) = splitEventName dataBinding;
          srcRange =
            bindingSourceRange attributeValueRange newlineIndexes attributeOffset dataBinding;
          parseResult = parseExpression parseJs exprText srcRange
      in pushParseResult parseResult
           (newAttributeDatabindingExpression node isFullAttributeBinding
              (direction dataBinding) ev attr srcRange exprText)
           acc)"

definition extractDataBindingsFromAttr ::
  "Parser \<Rightarrow> ParsedHtmlDocument \<Rightarrow> ASTNode \<Rightarrow> ASTAttribute \<Rightarrow>
     HtmlDatabindingExpression list \<Rightarrow> Warning list \<Rightarrow>
     HtmlDatabindingExpression list \<times> Warning list" where
  "extractDataBindingsFromAttr parseJs document node attr results warningsOut =
     (if value attr = [] then (results, warningsOut)
      else
        (let dataBindings = findDatabindingInString (value attr)
         in case sourceRangeForAttributeValue document node (name attr) True of
              None \<Rightarrow> (results, warningsOut)
            | Some attributeValueRange \<Rightarrow>
                fold (attrBinding parseJs node attr attributeValueRange
                        \<lparr>line' = line (start attributeValueRange),
                         col = column (start attributeValueRange)\<rparr>
                        (findNewlineIndexes (value attr)))
                  dataBindings (results, warningsOut)))"

section \<open>Sample inputs\<close>

text \<open>Concrete collaborators for evaluating the functions above. \<open>at a b\<close> is the
  location of a node on the first line of its text, from column \<open>a\<close> to column \<open>b\<close>.
  The programs are the ESTree trees of the texts named beside them.\<close>

definition at :: "int \<Rightarrow> int \<Rightarrow> SourceLocation option" where
  "at a b = Some \<lparr>loc_start = \<lparr>line = 1, column = a\<rparr>, loc_end = \<lparr>line = 1, column = b\<rparr>\<rparr>"

text \<open>\<^verbatim>\<open>foo(bar, baz.zod)\<close>\<close>

definition fooCallProgram :: Program where
  "fooCallProgram =
     Program
       [ExpressionStatement
          (CallExpression (Identifier ''foo'' (at 0 3))
             [Identifier ''bar'' (at 4 7),
              MemberExpression (Identifier ''baz'' (at 9 12)) (Identifier ''zod'' (at 13 16))
                (at 9 16)]
             (at 0 17))
          (at 0 17)]
       (at 0 17)"

text \<open>\<^verbatim>\<open>a && b\<close>\<close>

definition logicalAndProgram :: Program where
  "logicalAndProgram =
     Program [ExpressionStatement (OtherNode ''LogicalExpression'' (at 0 6)) (at 0 6)] (at 0 6)"

text \<open>A single identifier.\<close>

definition identifierProgram :: "string \<Rightarrow> Program" where
  "identifierProgram n =
     Program
       [ExpressionStatement (Identifier n (at 0 (int (length n)))) (at 0 (int (length n)))]
       (at 0 (int (length n)))"

text \<open>A parser that knows the texts above and the identifiers \<^verbatim>\<open>foo\<close>, \<^verbatim>\<open>bar\<close> and
  \<^verbatim>\<open>val\<close>, and reports a failure at the start of any other text.\<close>

definition sampleParseJs :: Parser where
  "sampleParseJs content filename offset errorCode =
     (if content = ''foo(bar, baz.zod)'' then Success fooCallProgram
      else if content = ''a && b'' then Success logicalAndProgram
      else if content = ''foo'' \<or> content = ''bar'' \<or> content = ''val''
        then Success (identifierProgram content)
      else Failure
             \<lparr>code = errorCode,
              message = ''Unexpected token'',
              warningRange =
                Some \<lparr>file' = filename,
                      start = \<lparr>line = line' offset, column = col offset\<rparr>,
                      end' = \<lparr>line = line' offset, column = col offset\<rparr>\<rparr>,
              severity = WARNING\<rparr>)"

text \<open>A document in which every node and every attribute value has the given range, and
  one that has no range for anything.\<close>

definition documentAt :: "SourceRange \<Rightarrow> ParsedHtmlDocument" where
  "documentAt r =
     \<lparr>htmlSourceRangeForNode = (\<lambda>node. Some r),
      sourceRangeForAttributeValue = (\<lambda>node attrName excludeQuotes. Some r)\<rparr>"

definition documentWithoutRanges :: ParsedHtmlDocument where
  "documentWithoutRanges =
     \<lparr>htmlSourceRangeForNode = (\<lambda>node. None),
      sourceRangeForAttributeValue = (\<lambda>node attrName excludeQuotes. None)\<rparr>"

definition textNode :: "string \<Rightarrow> ASTNode" where
  "textNode v = \<lparr>nodeName = ''#text'', attrs = None, value' = Some v\<rparr>"

definition elementNode :: "string \<Rightarrow> ASTAttribute list \<Rightarrow> ASTNode" where
  "elementNode tag as = \<lparr>nodeName = tag, attrs = Some as, value' = None\<rparr>"

section \<open>Properties of the delimiter scanner\<close>

subsection \<open>What \<open>indexOf\<close> finds\<close>

lemma indexOfFrom_occurrence:
  "indexOfFrom pat s i = Some j \<Longrightarrow> take (length pat) (drop (j - i) s) = pat"
proof (induction s arbitrary: i)
  case Nil
  then show ?case by (simp split: if_splits)
next
  case (Cons c cs)
  show ?case
  proof (cases "take (length pat) (c # cs) = pat")
    case True
    with Cons.prems show ?thesis by simp
  next
    case False
    with Cons.prems have rec: "indexOfFrom pat cs (Suc i) = Some j" by simp
    then have "Suc i \<le> j" by (rule indexOfFrom_ge)
    then have "j - i = Suc (j - Suc i)" by simp
    with Cons.IH [OF rec] show ?thesis by simp
  qed
qed

lemma indexOfFrom_no_occurrence:
  "indexOfFrom pat s i = None \<Longrightarrow> take (length pat) (drop q s) \<noteq> pat"
proof (induction s arbitrary: i q)
  case Nil
  then show ?case by (auto split: if_splits)
next
  case (Cons c cs)
  then have head: "take (length pat) (c # cs) \<noteq> pat"
    and rec: "indexOfFrom pat cs (Suc i) = None"
    by (simp_all split: if_splits)
  show ?case
  proof (cases q)
    case 0
    with head show ?thesis by simp
  next
    case (Suc q')
    with Cons.IH [OF rec, of q'] show ?thesis by simp
  qed
qed

lemma indexOf_occurrence:
  "indexOf pat str p = Some j \<Longrightarrow> take (length pat) (drop j str) = pat"
proof -
  assume a: "indexOf pat str p = Some j"
  let ?p = "min p (length str)"
  from a have f: "indexOfFrom pat (drop ?p str) ?p = Some j"
    by (simp add: indexOf_def Let_def)
  from indexOfFrom_ge [OF f] have "j - ?p + ?p = j" by simp
  with indexOfFrom_occurrence [OF f] show ?thesis by (simp del: take_eq_Nil)
qed

lemma indexOf_no_occurrence:
  "indexOf pat str p = None \<Longrightarrow> p \<le> q \<Longrightarrow> take (length pat) (drop q str) \<noteq> pat"
proof -
  assume a: "indexOf pat str p = None" and pq: "p \<le> q"
  let ?p = "min p (length str)"
  from a have f: "indexOfFrom pat (drop ?p str) ?p = None"
    by (simp add: indexOf_def Let_def)
  from pq have "q - ?p + ?p = q" by simp
  with indexOfFrom_no_occurrence [OF f, of "q - ?p"] show ?thesis by simp
qed

lemma indexOfFrom_first:
  "indexOfFrom pat s i = Some j \<Longrightarrow> q < j - i \<Longrightarrow> take (length pat) (drop q s) \<noteq> pat"
proof (induction s arbitrary: i q)
  case Nil
  then have "j = i" by (simp split: if_splits)
  with Nil.prems show ?case by simp
next
  case (Cons c cs)
  show ?case
  proof (cases "take (length pat) (c # cs) = pat")
    case True
    with Cons.prems show ?thesis by simp
  next
    case False
    with Cons.prems have rec: "indexOfFrom pat cs (Suc i) = Some j" by simp
    show ?thesis
    proof (cases q)
      case 0
      with False show ?thesis by simp
    next
      case (Suc q')
      with Cons.prems have "q' < j - Suc i" by simp
      from Cons.IH [OF rec this] Suc show ?thesis by simp
    qed
  qed
qed

lemma indexOf_first:
  assumes "indexOf pat str p = Some j" and "p \<le> q" and "q < j"
  shows "take (length pat) (drop q str) \<noteq> pat"
proof -
  let ?p = "min p (length str)"
  from assms(1) have f: "indexOfFrom pat (drop ?p str) ?p = Some j"
    by (simp add: indexOf_def Let_def)
  from assms(2,3) have "q - ?p < j - ?p" and "q - ?p + ?p = q" by simp_all
  with indexOfFrom_first [OF f, of "q - ?p"] show ?thesis by simp
qed

text \<open>\<open>indexOf\<close> returns the first occurrence at or after the position.\<close>

lemma indexOf_eq_first:
  assumes occ: "take (length pat) (drop e str) = pat" and ne: "pat \<noteq> []"
    and pe: "p \<le> e"
    and first: "\<forall>q. p \<le> q \<and> q < e \<longrightarrow> take (length pat) (drop q str) \<noteq> pat"
  shows "indexOf pat str p = Some e"
proof (cases "indexOf pat str p")
  case None
  from indexOf_no_occurrence [OF None pe] occ show ?thesis by simp
next
  case (Some j)
  from occ ne have "e < length str"
    by (cases "e < length str") auto
  with pe have "min p (length str) = p" by simp
  with indexOf_ge_min [OF Some] have pj: "p \<le> j" by simp
  have "j = e"
  proof (rule ccontr)
    assume "j \<noteq> e"
    then consider "j < e" | "e < j" by linarith
    then show False
    proof cases
      case 1
      with first pj indexOf_occurrence [OF Some] show False by blast
    next
      case 2
      from indexOf_first [OF Some pe 2] occ show False by simp
    qed
  qed
  with Some show ?thesis by simp
qed

subsection \<open>An unterminated opener\<close>

text \<open>Claim C3. When the opener search, resumed at any index \<open>i\<close> with any bindings
  \<open>acc\<close> emitted so far, finds an opener at \<open>j\<close> and no index from \<open>j + 2\<close> on holds
  the matching two-character closer, the scan ends with exactly the bindings emitted so
  far: none for this opener and none for anything after it. In particular the string
  \<^verbatim>\<open>{{unterminated\<close> has no bindings.\<close>

theorem unterminated_opener_aborts_scan:
  "(openersExec str i = Some (j, m) \<longrightarrow>
      (\<forall>p. j + 2 \<le> p \<longrightarrow> take 2 (drop p str) \<noteq> (if m = ''{{'' then ''}}'' else '']]'')) \<longrightarrow>
      findDatabindingLoop str i acc = acc)
   \<and> findDatabindingInString ''{{unterminated'' = []"
proof (intro conjI impI)
  assume found: "openersExec str i = Some (j, m)"
    and unclosed:
      "\<forall>p. j + 2 \<le> p \<longrightarrow> take 2 (drop p str) \<noteq> (if m = ''{{'' then ''}}'' else '']]'')"
  have "indexOf (if m = ''{{'' then ''}}'' else '']]'') str (j + 2) = None"
  proof (cases "indexOf (if m = ''{{'' then ''}}'' else '']]'') str (j + 2)")
    case None
    then show ?thesis .
  next
    case (Some e)
    from openersExec_bounds [OF found] have "j + 2 \<le> length str" by simp
    with indexOf_ge [OF Some] have "j + 2 \<le> e" by simp
    moreover have "length (if m = ''{{'' then ''}}'' else '']]'') = 2"
      by simp
    with indexOf_occurrence [OF Some]
    have "take 2 (drop e str) = (if m = ''{{'' then ''}}'' else '']]'')"
      by (simp only:)
    ultimately show ?thesis using unclosed by blast
  qed
  with found show "findDatabindingLoop str i acc = acc" by simp
next
  show "findDatabindingInString ''{{unterminated'' = []"
    by (simp add: findDatabindingInString_def openersExec_def indexOf_def)
qed

text \<open>The theorem at the string \<^verbatim>\<open>{{a}} [[b {{c}}\<close>, once the first binding has been
  emitted and the search resumes at index 5: the bracket opener at 6 has no closer, and
  the well-formed span after it is not reported.\<close>

theorem unterminated_opener_aborts_scan_witness:
  "openersExec ''{{a}} [[b {{c}}'' 5 = Some (6, ''[['')
   \<and> indexOf '']]'' ''{{a}} [[b {{c}}'' 8 = None
   \<and> findDatabindingLoop ''{{a}} [[b {{c}}'' 5
        [\<lparr>expressionText = ''a'', startIndex = 2, endIndex = 3, direction = Mustache\<rparr>]
      = [\<lparr>expressionText = ''a'', startIndex = 2, endIndex = 3, direction = Mustache\<rparr>]
   \<and> findDatabindingInString ''{{a}} [[b {{c}}''
      = [\<lparr>expressionText = ''a'', startIndex = 2, endIndex = 3, direction = Mustache\<rparr>]"
proof -
  have found: "openersExec ''{{a}} [[b {{c}}'' 5 = Some (6, ''[['')"
    by (simp add: openersExec_def)
  have none: "indexOf '']]'' ''{{a}} [[b {{c}}'' 8 = None"
    by (simp add: indexOf_def)
  have unclosed: "\<forall>p. 6 + 2 \<le> p \<longrightarrow>
      take 2 (drop p ''{{a}} [[b {{c}}'') \<noteq> (if ''[['' = ''{{'' then ''}}'' else '']]'')"
    using indexOf_no_occurrence [OF none] by (simp add: numeral_2_eq_2)
  have whole: "findDatabindingInString ''{{a}} [[b {{c}}''
      = [\<lparr>expressionText = ''a'', startIndex = 2, endIndex = 3, direction = Mustache\<rparr>]"
    by (simp add: findDatabindingInString_def openersExec_def indexOf_def slice_def)
  from unterminated_opener_aborts_scan [of "''{{a}} [[b {{c}}''" 5 6 "''[[''"] found unclosed
    none whole
  show ?thesis by blast
qed

subsection \<open>Two bindings in one string\<close>

text \<open>Claim C8. The string \<^verbatim>\<open>a {{foo}} b [[bar]] c\<close> has exactly two bindings, in this
  order: a mustache binding with text \<^verbatim>\<open>foo\<close> from 4 to 7 and a bracket binding with
  text \<^verbatim>\<open>bar\<close> from 14 to 17; the two characters before each start index are the
  opener and the two characters at each end index are the closer. In general, when the
  opener search from \<open>i\<close> finds an opener at \<open>j\<close> and \<open>e\<close> is the first index from
  \<open>j + 2\<close> on that holds the matching closer, the binding from \<open>j + 2\<close> to \<open>e\<close> is
  emitted and the search resumes at \<open>e + 2\<close>.\<close>

theorem scan_mustache_then_bracket:
  "findDatabindingInString ''a {{foo}} b [[bar]] c'' =
     [\<lparr>expressionText = ''foo'', startIndex = 4, endIndex = 7, direction = Mustache\<rparr>,
      \<lparr>expressionText = ''bar'', startIndex = 14, endIndex = 17, direction = Bracket\<rparr>]
   \<and> slice ''a {{foo}} b [[bar]] c'' 2 4 = ''{{''
   \<and> slice ''a {{foo}} b [[bar]] c'' 7 9 = ''}}''
   \<and> slice ''a {{foo}} b [[bar]] c'' 12 14 = ''[[''
   \<and> slice ''a {{foo}} b [[bar]] c'' 17 19 = '']]''
   \<and> (openersExec str i = Some (j, m) \<longrightarrow>
        j + 2 \<le> e \<longrightarrow>
        take 2 (drop e str) = (if m = ''{{'' then ''}}'' else '']]'') \<longrightarrow>
        (\<forall>q. j + 2 \<le> q \<and> q < e \<longrightarrow>
              take 2 (drop q str) \<noteq> (if m = ''{{'' then ''}}'' else '']]'')) \<longrightarrow>
        findDatabindingLoop str i acc =
          findDatabindingLoop str (e + 2)
            (acc @ [\<lparr>expressionText = slice str (j + 2) e, startIndex = j + 2, endIndex = e,
                     direction = (if m = ''{{'' then Mustache else Bracket)\<rparr>]))"
proof (intro conjI impI)
  show "findDatabindingInString ''a {{foo}} b [[bar]] c'' =
     [\<lparr>expressionText = ''foo'', startIndex = 4, endIndex = 7, direction = Mustache\<rparr>,
      \<lparr>expressionText = ''bar'', startIndex = 14, endIndex = 17, direction = Bracket\<rparr>]"
    by (simp add: findDatabindingInString_def openersExec_def indexOf_def slice_def)
next
  assume found: "openersExec str i = Some (j, m)"
    and after: "j + 2 \<le> e"
    and closer: "take 2 (drop e str) = (if m = ''{{'' then ''}}'' else '']]'')"
    and first: "\<forall>q. j + 2 \<le> q \<and> q < e \<longrightarrow>
              take 2 (drop q str) \<noteq> (if m = ''{{'' then ''}}'' else '']]'')"
  let ?closers = "if m = ''{{'' then ''}}'' else '']]''"
  have len: "length ?closers = 2" by simp
  have "indexOf ?closers str (j + 2) = Some e"
  proof (rule indexOf_eq_first)
    show "take (length ?closers) (drop e str) = ?closers"
      using closer by (simp only: len)
    show "?closers \<noteq> []" by simp
    show "j + 2 \<le> e" by (rule after)
    show "\<forall>q. j + 2 \<le> q \<and> q < e \<longrightarrow> take (length ?closers) (drop q str) \<noteq> ?closers"
      using first by (simp only: len)
  qed
  with found show "findDatabindingLoop str i acc =
          findDatabindingLoop str (e + 2)
            (acc @ [\<lparr>expressionText = slice str (j + 2) e, startIndex = j + 2, endIndex = e,
                     direction = (if m = ''{{'' then Mustache else Bracket)\<rparr>])"
    by (subst findDatabindingLoop.simps) simp
qed (simp_all add: slice_def)

text \<open>The general part at the first binding of the same string.\<close>

theorem scan_mustache_then_bracket_witness:
  "openersExec ''a {{foo}} b [[bar]] c'' 0 = Some (2, ''{{'')
   \<and> indexOf ''}}'' ''a {{foo}} b [[bar]] c'' 4 = Some 7
   \<and> findDatabindingLoop ''a {{foo}} b [[bar]] c'' 0 [] =
       findDatabindingLoop ''a {{foo}} b [[bar]] c'' 9
         [\<lparr>expressionText = ''foo'', startIndex = 4, endIndex = 7, direction = Mustache\<rparr>]"
proof -
  let ?s = "''a {{foo}} b [[bar]] c''"
  have found: "openersExec ?s 0 = Some (2, ''{{'')"
    by (simp add: openersExec_def)
  have idx: "indexOf ''}}'' ?s 4 = Some 7"
    by (simp add: indexOf_def)
  have closer: "take 2 (drop 7 ?s) = (if ''{{'' = ''{{'' then ''}}'' else '']]'')"
    by simp
  have first: "\<forall>q. 2 + 2 \<le> q \<and> q < 7 \<longrightarrow>
      take 2 (drop q ?s) \<noteq> (if ''{{'' = ''{{'' then ''}}'' else '']]'')"
    using indexOf_first [OF idx] by (simp add: numeral_2_eq_2)
  have inner: "slice ?s (2 + 2) 7 = ''foo''"
    by (simp add: slice_def)
  from scan_mustache_then_bracket [of ?s 0 2 "''{{''" 7 "[]"] found closer first inner idx
  show ?thesis by simp
qed

section \<open>Properties of the grammar validator\<close>

text \<open>Claim C1. Validating the program of \<^verbatim>\<open>foo(bar, baz.zod)\<close>, at any source range,
  records the properties \<^verbatim>\<open>foo\<close>, \<^verbatim>\<open>bar\<close>, \<^verbatim>\<open>baz\<close> in this order and no warning;
  \<^verbatim>\<open>zod\<close> is not among them. In general the validation of a member access is the
  validation of its object part with calls disallowed: the result is the same whatever
  the accessed property, its location and the flag are.\<close>

theorem validator_records_roots_only:
  "map name' (properties (newDatabindingExpression r ''foo(bar, baz.zod)'' fooCallProgram))
     = [''foo'', ''bar'', ''baz'']
   \<and> ''zod'' \<notin> set (map name'
         (properties (newDatabindingExpression r ''foo(bar, baz.zod)'' fooCallProgram)))
   \<and> warnings (newDatabindingExpression r ''foo(bar, baz.zod)'' fooCallProgram) = []
   \<and> extractAndValidateSubExpression (MemberExpression obj property l) callAllowed this
       = extractAndValidateSubExpression obj False this
   \<and> extractAndValidateSubExpression (MemberExpression obj property l) callAllowed this
       = extractAndValidateSubExpression (MemberExpression obj property2 l2) callAllowed2 this"
proof -
  have names:
    "map name' (properties (newDatabindingExpression r ''foo(bar, baz.zod)'' fooCallProgram))
       = [''foo'', ''bar'', ''baz'']"
    by (simp add: newDatabindingExpression_def extractPropertiesAndValidate_def
        fooCallProgram_def)
  have clean: "warnings (newDatabindingExpression r ''foo(bar, baz.zod)'' fooCallProgram) = []"
    by (simp add: newDatabindingExpression_def extractPropertiesAndValidate_def
        fooCallProgram_def)
  have absent: "''zod'' \<notin> set [''foo'', ''bar'', ''baz'']"
    by simp
  have object_only:
    "extractAndValidateSubExpression (MemberExpression obj property l) callAllowed this
       = extractAndValidateSubExpression obj False this"
    for property l callAllowed
    by simp
  from names clean absent object_only [of property l callAllowed]
    object_only [of property2 l2 callAllowed2]
  show ?thesis by (simp only: simp_thms)
qed

subsection \<open>What the validator leaves alone\<close>

lemma fold_frame:
  assumes "\<And>x acc. x \<in> set xs \<Longrightarrow> g (f x acc) = g acc"
  shows "g (fold f xs acc) = g acc"
  using assms by (induction xs arbitrary: acc) simp_all

lemma frame_update:
  "frame (this\<lparr>warnings := ws\<rparr>) = frame this"
  "frame (this\<lparr>properties := ps\<rparr>) = frame this"
  by (simp_all add: frame_def)

lemma notExpectedHere_frame: "frame (notExpectedHere n this) = frame this"
  by (simp add: notExpectedHere_def frame_update)

lemma extractAndValidateSubExpression_frame:
  "frame (extractAndValidateSubExpression n callAllowed this) = frame this"
proof (induction n callAllowed this rule: extractAndValidateSubExpression.induct)
  case (4 callee args l callAllowed this)
  show ?case
  proof (cases callAllowed)
    case True
    have "frame (fold (\<lambda>arg acc. extractAndValidateSubExpression arg False acc) args
            (extractAndValidateSubExpression callee False this))
          = frame (extractAndValidateSubExpression callee False this)"
      by (rule fold_frame) (simp add: 4(2) [OF True])
    with True 4(1) show ?thesis by simp
  next
    case False
    then show ?thesis by (simp add: notExpectedHere_frame)
  qed
qed (simp_all add: notExpectedHere_frame frame_update)

lemma extractPropertiesAndValidate_frame: "frame (extractPropertiesAndValidate this) = frame this"
  by (simp add: extractPropertiesAndValidate_def extractAndValidateSubExpression_frame
      frame_update del: extractAndValidateSubExpression.simps
      split: Program.splits Statement.splits Node.splits)

lemma newDatabindingExpression_fields:
  "sourceRange (newDatabindingExpression r t ast) = r"
  "expressionText' (newDatabindingExpression r t ast) = t"
  using extractPropertiesAndValidate_frame
    [of "\<lparr>sourceRange = r, warnings = [], expressionText' = t, expressionAst = ast,
          locationOffset = \<lparr>line' = line (start r), col = column (start r)\<rparr>,
          properties = []\<rparr>"]
  by (simp_all add: frame_def newDatabindingExpression_def)

section \<open>Properties of the site extractors\<close>

subsection \<open>A node or attribute without source range\<close>

text \<open>Claim C10. When the document has no source range for the text node, or none for
  the value of the attribute, the extractor returns the result and warning sequences
  it was given, whatever the text contains.\<close>

theorem no_source_range_no_output:
  "(htmlSourceRangeForNode document node = None \<longrightarrow>
      extractDataBindingsFromTextNode parseJs document node results ws = (results, ws))
   \<and> (sourceRangeForAttributeValue document node (name attr) True = None \<longrightarrow>
      extractDataBindingsFromAttr parseJs document node attr results ws = (results, ws))"
proof (intro conjI impI)
  assume "htmlSourceRangeForNode document node = None"
  then show "extractDataBindingsFromTextNode parseJs document node results ws = (results, ws)"
    by (simp add: extractDataBindingsFromTextNode_def Let_def)
next
  assume "sourceRangeForAttributeValue document node (name attr) True = None"
  then show "extractDataBindingsFromAttr parseJs document node attr results ws = (results, ws)"
    by (simp add: extractDataBindingsFromAttr_def Let_def)
qed

text \<open>The theorem at a document without ranges, for a text node and an attribute
  whose text is the well-formed binding \<^verbatim>\<open>{{foo}}\<close> of a text the parser accepts.\<close>

theorem no_source_range_no_output_witness:
  "findDatabindingInString ''{{foo}}''
     = [\<lparr>expressionText = ''foo'', startIndex = 2, endIndex = 5, direction = Mustache\<rparr>]
   \<and> sampleParseJs ''foo'' ''index.html'' \<lparr>line' = 0, col = 0\<rparr> ''polymer-expression-parse-error''
       = Success (identifierProgram ''foo'')
   \<and> htmlSourceRangeForNode documentWithoutRanges (textNode ''{{foo}}'') = None
   \<and> extractDataBindingsFromTextNode sampleParseJs documentWithoutRanges (textNode ''{{foo}}'')
         [] [] = ([], [])
   \<and> sourceRangeForAttributeValue documentWithoutRanges (elementNode ''div'' [])
         (name \<lparr>name = ''title'', value = ''{{foo}}''\<rparr>) True = None
   \<and> extractDataBindingsFromAttr sampleParseJs documentWithoutRanges (elementNode ''div'' [])
         \<lparr>name = ''title'', value = ''{{foo}}''\<rparr> [] [] = ([], [])"
proof -
  have bindings: "findDatabindingInString ''{{foo}}''
     = [\<lparr>expressionText = ''foo'', startIndex = 2, endIndex = 5, direction = Mustache\<rparr>]"
    by (simp add: findDatabindingInString_def openersExec_def indexOf_def slice_def)
  have parses: "sampleParseJs ''foo'' ''index.html'' \<lparr>line' = 0, col = 0\<rparr>
      ''polymer-expression-parse-error'' = Success (identifierProgram ''foo'')"
    by (simp add: sampleParseJs_def)
  have node: "htmlSourceRangeForNode documentWithoutRanges (textNode ''{{foo}}'') = None"
    by (simp add: documentWithoutRanges_def)
  have attr: "sourceRangeForAttributeValue documentWithoutRanges (elementNode ''div'' [])
         (name \<lparr>name = ''title'', value = ''{{foo}}''\<rparr>) True = None"
    by (simp add: documentWithoutRanges_def)
  from no_source_range_no_output [of documentWithoutRanges "textNode ''{{foo}}''" sampleParseJs
      "[]" "[]" "\<lparr>name = ''title'', value = ''{{foo}}''\<rparr>"]
    no_source_range_no_output [of documentWithoutRanges "elementNode ''div'' []" sampleParseJs
      "[]" "[]" "\<lparr>name = ''title'', value = ''{{foo}}''\<rparr>"]
    bindings parses node attr
  show ?thesis by (simp only: simp_thms)
qed

subsection \<open>The sub-property path convention\<close>

lemma subPropertyTest_star: "subPropertyTest (pre @ ''.*'')"
proof (induction pre)
  case Nil
  show ?case by simp
next
  case (Cons c cs)
  then show ?case
    by (cases "cs @ ''.*''") simp_all
qed

lemma subPropertyTest_digits:
  "d \<in> set ''0123456789'' \<Longrightarrow> subPropertyTest (pre @ ''.'' @ d # ds)"
proof (induction pre)
  case Nil
  then show ?case by simp
next
  case (Cons c cs)
  then show ?case
    by (cases "cs @ ''.'' @ d # ds") simp_all
qed

lemma subPropertyTest_trailing:
  assumes "content = pre @ ''.*'' \<or>
           (content = pre @ ''.'' @ ds \<and> ds \<noteq> [] \<and> set ds \<subseteq> set ''0123456789'')"
  shows "subPropertyTest content"
  using assms
proof
  assume "content = pre @ ''.*''"
  then show ?thesis by (simp only: subPropertyTest_star)
next
  assume a: "content = pre @ ''.'' @ ds \<and> ds \<noteq> [] \<and> set ds \<subseteq> set ''0123456789''"
  then obtain d ds' where ds: "ds = d # ds'" by (cases ds) auto
  with a have "d \<in> set ''0123456789''" by auto
  from subPropertyTest_digits [OF this, of pre ds'] a ds show ?thesis by simp
qed

text \<open>What the tail of a loop body pushes, by parse result.\<close>

lemma pushParseResult_None: "pushParseResult None mk acc = acc"
  by (cases acc) (simp add: pushParseResult_def)

lemma pushParseResult_Failure:
  "pushParseResult (Some (Failure w)) mk (rs, ws) = (rs, ws @ [w])"
  by (simp add: pushParseResult_def)

lemma pushParseResult_Success:
  "pushParseResult (Some (Success program)) mk (rs, ws)
     = (rs @ [mk program], ws @ warnings (base (mk program)))"
  by (simp add: pushParseResult_def Let_def)

text \<open>Claim C7. A candidate text that ends in \<^verbatim>\<open>.*\<close> or in a dot and one or more
  digits, and that the parser rejects, makes \<^verbatim>\<open>parseExpression\<close> return
  \<^verbatim>\<open>undefined\<close>; the loop body of either extractor, for a binding whose text to parse
  this is, then leaves the results and the warnings as they were.\<close>

theorem sub_property_path_dropped_silently:
  assumes trailing:
      "content = pre @ ''.*'' \<or>
       (content = pre @ ''.'' @ ds \<and> ds \<noteq> [] \<and> set ds \<subseteq> set ''0123456789'')"
    and fails:
      "parseJs content (file' r) \<lparr>line' = line (start r), col = column (start r)\<rparr>
         ''polymer-expression-parse-error'' = Failure w"
  shows "parseExpression parseJs content r = None
    \<and> (expressionText b = content \<and> bindingSourceRange valueRange newlines off b = r \<longrightarrow>
         textNodeBinding parseJs node valueRange newlines off b acc = acc)
    \<and> (fst (splitEventName b) = content \<and> bindingSourceRange valueRange newlines off b = r \<longrightarrow>
         attrBinding parseJs element attr valueRange off newlines b acc = acc)"
proof -
  from trailing have "subPropertyTest content"
    by (rule subPropertyTest_trailing)
  with fails have none: "parseExpression parseJs content r = None"
    by (simp add: parseExpression_def Let_def)
  have text_site: "textNodeBinding parseJs node valueRange newlines off b acc = acc"
    if "expressionText b = content \<and> bindingSourceRange valueRange newlines off b = r"
    using that none by (simp add: textNodeBinding_def Let_def pushParseResult_None)
  have attr_site: "attrBinding parseJs element attr valueRange off newlines b acc = acc"
    if "fst (splitEventName b) = content \<and> bindingSourceRange valueRange newlines off b = r"
    using that none
    by (simp add: attrBinding_def Let_def case_prod_beta pushParseResult_None)
  from none text_site attr_site show ?thesis by blast
qed

text \<open>The theorem at the binding of \<^verbatim>\<open>{{foo.*}}\<close>, which the sample parser
  rejects.\<close>

theorem sub_property_path_dropped_silently_witness:
  "sampleParseJs ''foo.*'' ''index.html'' \<lparr>line' = 10, col = 6\<rparr> ''polymer-expression-parse-error''
     = Failure \<lparr>code = ''polymer-expression-parse-error'', message = ''Unexpected token'',
         warningRange = Some \<lparr>file' = ''index.html'', start = \<lparr>line = 10, column = 6\<rparr>,
                               end' = \<lparr>line = 10, column = 6\<rparr>\<rparr>,
         severity = WARNING\<rparr>
   \<and> parseExpression sampleParseJs ''foo.*''
         \<lparr>file' = ''index.html'', start = \<lparr>line = 10, column = 6\<rparr>,
          end' = \<lparr>line = 10, column = 11\<rparr>\<rparr> = None
   \<and> textNodeBinding sampleParseJs (textNode ''{{foo.*}}'')
         \<lparr>file' = ''index.html'', start = \<lparr>line = 10, column = 4\<rparr>,
          end' = \<lparr>line = 10, column = 13\<rparr>\<rparr> [] \<lparr>line' = 10, col = 4\<rparr>
         \<lparr>expressionText = ''foo.*'', startIndex = 2, endIndex = 7, direction = Mustache\<rparr>
         ([], []) = ([], [])
   \<and> attrBinding sampleParseJs (elementNode ''div'' []) \<lparr>name = ''items'', value = ''{{foo.*}}''\<rparr>
         \<lparr>file' = ''index.html'', start = \<lparr>line = 10, column = 4\<rparr>,
          end' = \<lparr>line = 10, column = 13\<rparr>\<rparr> \<lparr>line' = 10, col = 4\<rparr> []
         \<lparr>expressionText = ''foo.*'', startIndex = 2, endIndex = 7, direction = Mustache\<rparr>
         ([], []) = ([], [])"
proof -
  let ?b = "\<lparr>expressionText = ''foo.*'', startIndex = 2, endIndex = 7, direction = Mustache\<rparr>"
  let ?v = "\<lparr>file' = ''index.html'', start = \<lparr>line = 10, column = 4\<rparr>,
             end' = \<lparr>line = 10, column = 13\<rparr>\<rparr>"
  let ?r = "\<lparr>file' = ''index.html'', start = \<lparr>line = 10, column = 6\<rparr>,
             end' = \<lparr>line = 10, column = 11\<rparr>\<rparr>"
  let ?w = "\<lparr>code = ''polymer-expression-parse-error'', message = ''Unexpected token'',
         warningRange = Some \<lparr>file' = ''index.html'', start = \<lparr>line = 10, column = 6\<rparr>,
                               end' = \<lparr>line = 10, column = 6\<rparr>\<rparr>,
         severity = WARNING\<rparr>"
  have trailing: "''foo.*'' = ''foo'' @ ''.*'' \<or>
      (''foo.*'' = ''foo'' @ ''.'' @ [] \<and> ([]::string) \<noteq> [] \<and> set [] \<subseteq> set ''0123456789'')"
    by simp
  have fails: "sampleParseJs ''foo.*'' (file' ?r) \<lparr>line' = line (start ?r), col = column (start ?r)\<rparr>
      ''polymer-expression-parse-error'' = Failure ?w"
    by (simp add: sampleParseJs_def)
  have range: "bindingSourceRange ?v [] \<lparr>line' = 10, col = 4\<rparr> ?b = ?r"
    by (simp add: bindingSourceRange_def indexesToSourceRange_def correctSourceRange_def)
  have unsplit: "fst (splitEventName ?b) = ''foo.*''"
    by (simp add: splitEventName_def dotStar_def isLineTerminator_def)
  have whole: "expressionText ?b = ''foo.*''"
    by simp
  from sub_property_path_dropped_silently [where content = "''foo.*''" and pre = "''foo''"
        and ds = "[]" and parseJs = sampleParseJs and r = ?r and w = ?w and
        b = ?b and valueRange = ?v and newlines = "[]" and off = "\<lparr>line' = 10, col = 4\<rparr>"
        and node = "textNode ''{{foo.*}}''" and acc = "([], [])"
        and element = "elementNode ''div'' []"
        and attr = "\<lparr>name = ''items'', value = ''{{foo.*}}''\<rparr>"]
    trailing fails range unsplit whole
  have "parseExpression sampleParseJs ''foo.*'' ?r = None
    \<and> textNodeBinding sampleParseJs (textNode ''{{foo.*}}'') ?v [] \<lparr>line' = 10, col = 4\<rparr> ?b
          ([], []) = ([], [])
    \<and> attrBinding sampleParseJs (elementNode ''div'' [])
          \<lparr>name = ''items'', value = ''{{foo.*}}''\<rparr> ?v \<lparr>line' = 10, col = 4\<rparr> [] ?b
          ([], []) = ([], [])"
    by blast
  moreover have "sampleParseJs ''foo.*'' ''index.html'' \<lparr>line' = 10, col = 6\<rparr>
      ''polymer-expression-parse-error'' = Failure ?w"
    using fails by simp
  ultimately show ?thesis by blast
qed

subsection \<open>Composition with the offset of the string\<close>

text \<open>Claim C4. Composing a range with an offset adds the offset's line to both line
  numbers; the column of a position whose relative line is not 0 is unchanged, and on
  relative line 0 the offset's column is added. For the text node
  \<^verbatim>\<open>line1\<close>, newline, \<^verbatim>\<open>{{foo}}\<close> starting at line 10 and any column \<open>c\<close>, the
  expression starts at line 11, column 2, whatever \<open>c\<close> is.\<close>

theorem offset_composition:
  "line (start (correctSourceRange r off)) = line (start r) + line' off
   \<and> line (end' (correctSourceRange r off)) = line (end' r) + line' off
   \<and> (line (start r) \<noteq> 0 \<longrightarrow>
        column (start (correctSourceRange r off)) = column (start r))
   \<and> (line (end' r) \<noteq> 0 \<longrightarrow>
        column (end' (correctSourceRange r off)) = column (end' r))
   \<and> (line (start r) = 0 \<longrightarrow>
        column (start (correctSourceRange r off)) = column (start r) + col off)
   \<and> (line (start r) = 0 \<and> line (end' r) = 0 \<longrightarrow>
        column (end' (correctSourceRange r off)) = column (end' r) + col off)
   \<and> map (start \<circ> sourceRange \<circ> base)
        (fst (extractDataBindingsFromTextNode sampleParseJs
                (documentAt \<lparr>file' = f, start = \<lparr>line = 10, column = c\<rparr>, end' = e\<rparr>)
                (textNode ''line1\<newline>{{foo}}'') [] []))
       = [\<lparr>line = 11, column = 2\<rparr>]"
proof -
  have lines: "line (start (correctSourceRange r off)) = line (start r) + line' off"
    "line (end' (correctSourceRange r off)) = line (end' r) + line' off"
    by (simp_all add: correctSourceRange_def)
  have continuation:
    "line (start r) \<noteq> 0 \<longrightarrow> column (start (correctSourceRange r off)) = column (start r)"
    "line (end' r) \<noteq> 0 \<longrightarrow> column (end' (correctSourceRange r off)) = column (end' r)"
    by (simp_all add: correctSourceRange_def)
  have first_line:
    "line (start r) = 0 \<longrightarrow>
       column (start (correctSourceRange r off)) = column (start r) + col off"
    "line (start r) = 0 \<and> line (end' r) = 0 \<longrightarrow>
       column (end' (correctSourceRange r off)) = column (end' r) + col off"
    by (simp_all add: correctSourceRange_def)
  have bindings: "findDatabindingInString ''line1\<newline>{{foo}}''
      = [\<lparr>expressionText = ''foo'', startIndex = 8, endIndex = 11, direction = Mustache\<rparr>]"
    by (simp add: findDatabindingInString_def openersExec_def indexOf_def slice_def)
  have newlines: "findNewlineIndexes ''line1\<newline>{{foo}}'' = [5]"
    by (simp add: findNewlineIndexes_def indexOf_def)
  have example: "map (start \<circ> sourceRange \<circ> base)
        (fst (extractDataBindingsFromTextNode sampleParseJs
                (documentAt \<lparr>file' = f, start = \<lparr>line = 10, column = c\<rparr>, end' = e\<rparr>)
                (textNode ''line1\<newline>{{foo}}'') [] []))
       = [\<lparr>line = 11, column = 2\<rparr>]"
    by (simp add: extractDataBindingsFromTextNode_def textNode_def documentAt_def bindings
        newlines textNodeBinding_def bindingSourceRange_def indexesToSourceRange_def
        correctSourceRange_def parseExpression_def sampleParseJs_def pushParseResult_def
        newTextNodeDatabindingExpression_def newDatabindingExpression_def
        extractPropertiesAndValidate_def identifierProgram_def Let_def)
  from lines continuation first_line example show ?thesis
    by (simp only: simp_thms)
qed

text \<open>The theorem at a range from line 0 to line 1 with the offset line 10, column 4,
  and at the text node of the claim with node column 4.\<close>

theorem offset_composition_witness:
  "line (start (correctSourceRange
       \<lparr>file' = ''index.html'', start = \<lparr>line = 0, column = 3\<rparr>,
        end' = \<lparr>line = 1, column = 2\<rparr>\<rparr> \<lparr>line' = 10, col = 4\<rparr>)) = 10
   \<and> column (start (correctSourceRange
       \<lparr>file' = ''index.html'', start = \<lparr>line = 0, column = 3\<rparr>,
        end' = \<lparr>line = 1, column = 2\<rparr>\<rparr> \<lparr>line' = 10, col = 4\<rparr>)) = 7
   \<and> line (end' (correctSourceRange
       \<lparr>file' = ''index.html'', start = \<lparr>line = 0, column = 3\<rparr>,
        end' = \<lparr>line = 1, column = 2\<rparr>\<rparr> \<lparr>line' = 10, col = 4\<rparr>)) = 11
   \<and> column (end' (correctSourceRange
       \<lparr>file' = ''index.html'', start = \<lparr>line = 0, column = 3\<rparr>,
        end' = \<lparr>line = 1, column = 2\<rparr>\<rparr> \<lparr>line' = 10, col = 4\<rparr>)) = 2
   \<and> map (start \<circ> sourceRange \<circ> base)
        (fst (extractDataBindingsFromTextNode sampleParseJs
                (documentAt \<lparr>file' = ''index.html'', start = \<lparr>line = 10, column = 4\<rparr>,
                             end' = \<lparr>line = 11, column = 7\<rparr>\<rparr>)
                (textNode ''line1\<newline>{{foo}}'') [] []))
       = [\<lparr>line = 11, column = 2\<rparr>]"
  using offset_composition
    [of "\<lparr>file' = ''index.html'', start = \<lparr>line = 0, column = 3\<rparr>,
          end' = \<lparr>line = 1, column = 2\<rparr>\<rparr>"
        "\<lparr>line' = 10, col = 4\<rparr>" "''index.html''" 4 "\<lparr>line = 11, column = 7\<rparr>"]
  by simp

subsection \<open>The event name of an attribute binding\<close>

lemma dotStar_single_line: "\<forall>c\<in>set s. \<not> isLineTerminator c \<Longrightarrow> dotStar s = s"
  by (simp add: dotStar_def)

lemma eventMatchAt_last:
  assumes "take 2 (drop m s) = ''::''"
    and "m \<le> k"
    and "\<forall>q. m < q \<and> q \<le> k \<longrightarrow> take 2 (drop q s) \<noteq> ''::''"
  shows "eventMatchAt s k = Some (take m s, dotStar (drop (m + 2) s))"
  using assms(2,3)
proof (induction k)
  case 0
  with assms(1) show ?case by (simp add: numeral_2_eq_2)
next
  case (Suc k)
  show ?case
  proof (cases "m = Suc k")
    case True
    with assms(1) show ?thesis by simp
  next
    case False
    with Suc.prems have le: "m \<le> k" and later: "take 2 (drop (Suc k) s) \<noteq> ''::''"
      by simp_all
    from Suc.prems have "\<forall>q. m < q \<and> q \<le> k \<longrightarrow> take 2 (drop q s) \<noteq> ''::''"
      by simp
    from Suc.IH [OF le this] later show ?thesis
      by (simp only: eventMatchAt.simps if_False)
  qed
qed

lemma eventMatchAt_None:
  "\<forall>q. q \<le> k \<longrightarrow> take 2 (drop q s) \<noteq> ''::'' \<Longrightarrow> eventMatchAt s k = None"
proof (induction k)
  case 0
  then have "take 2 (drop 0 s) \<noteq> ''::''" by blast
  then show ?case by simp
next
  case (Suc k)
  then have "take 2 (drop (Suc k) s) \<noteq> ''::''" by blast
  moreover from Suc have "eventMatchAt s k = None" by simp
  ultimately show ?case by (simp only: eventMatchAt.simps if_False)
qed

lemma eventMatch_None:
  "\<forall>q. take 2 (drop q s) \<noteq> ''::'' \<Longrightarrow> eventMatch s = None"
proof (induction s)
  case Nil
  then show ?case by simp
next
  case (Cons c cs)
  have "\<forall>q. take 2 (drop q cs) \<noteq> ''::''"
  proof
    fix q
    from Cons.prems have "take 2 (drop (Suc q) (c # cs)) \<noteq> ''::''" by blast
    then show "take 2 (drop q cs) \<noteq> ''::''" by simp
  qed
  with Cons.IH have "eventMatch cs = None" by simp
  moreover from Cons.prems have "eventMatchAt (c # cs) (length (dotStar (c # cs))) = None"
    by (simp add: eventMatchAt_None)
  ultimately show ?case by simp
qed

text \<open>In a text without line terminators the match splits at the last separator.\<close>

lemma eventMatch_last:
  assumes single: "\<forall>c\<in>set t. \<not> isLineTerminator c"
    and sep: "take 2 (drop k t) = ''::''"
    and last: "\<forall>q. k < q \<longrightarrow> take 2 (drop q t) \<noteq> ''::''"
  shows "eventMatch t = Some (take k t, drop (k + 2) t)"
proof -
  from sep have "length (take 2 (drop k t)) = length ''::''"
    by (simp only:)
  then have len: "k + 2 \<le> length t"
    by simp
  then obtain c cs where t: "t = c # cs" by (cases t) auto
  from single have whole: "dotStar t = t" by (rule dotStar_single_line)
  from single have "\<forall>c\<in>set (drop (k + 2) t). \<not> isLineTerminator c"
    by (meson in_set_dropD)
  then have rest: "dotStar (drop (k + 2) t) = drop (k + 2) t"
    by (rule dotStar_single_line)
  from len have "k \<le> length t" by simp
  moreover from last have "\<forall>q. k < q \<and> q \<le> length t \<longrightarrow> take 2 (drop q t) \<noteq> ''::''"
    by simp
  ultimately have "eventMatchAt t (length t) = Some (take k t, dotStar (drop (k + 2) t))"
    using sep by (intro eventMatchAt_last)
  with whole rest have "eventMatchAt t (length (dotStar t)) = Some (take k t, drop (k + 2) t)"
    by simp
  then show ?thesis
    unfolding t by simp
qed

text \<open>On a text without line terminator the split is the one the specification
  describes. A bracket binding is never split and has no event name; a mustache binding
  whose text holds no \<^verbatim>\<open>::\<close> is not split either. A mustache binding whose text has no
  line terminator and is \<open>e\<close>, the separator and \<open>n\<close>, with no further separator
  starting after that one, is split into the expression text \<open>e\<close> and the event name
  \<open>n\<close>. The text that is parsed is the split one, and an expression built from the
  binding carries the split text and the event name.\<close>

lemma event_suffix_split_on_one_line:
  "(direction b = Bracket \<longrightarrow> splitEventName b = (expressionText b, None))
   \<and> (direction b = Mustache \<and> (\<forall>q. take 2 (drop q (expressionText b)) \<noteq> ''::'') \<longrightarrow>
        splitEventName b = (expressionText b, None))
   \<and> (direction b = Mustache \<and> expressionText b = e @ ''::'' @ n
        \<and> (\<forall>c\<in>set (expressionText b). \<not> isLineTerminator c)
        \<and> (\<forall>q. length e < q \<longrightarrow> take 2 (drop q (expressionText b)) \<noteq> ''::'') \<longrightarrow>
        splitEventName b = (e, Some n))
   \<and> (parseExpression parseJs (fst (splitEventName b))
          (bindingSourceRange valueRange newlines off b) = Some (Success program) \<longrightarrow>
        (\<exists>x. attrBinding parseJs element attr valueRange off newlines b (rs, ws)
               = (rs @ [x], ws @ warnings (base x))
             \<and> expressionText' (base x) = fst (splitEventName b)
             \<and> eventName x = snd (splitEventName b)))
   \<and> splitEventName
        \<lparr>expressionText = ''val::changed'', startIndex = i, endIndex = j, direction = Mustache\<rparr>
       = (''val'', Some ''changed'')
   \<and> splitEventName
        \<lparr>expressionText = ''val::changed'', startIndex = i, endIndex = j, direction = Bracket\<rparr>
       = (''val::changed'', None)"
proof (intro conjI impI)
  assume "direction b = Bracket"
  then show "splitEventName b = (expressionText b, None)"
    by (simp add: splitEventName_def)
next
  assume "direction b = Mustache \<and> (\<forall>q. take 2 (drop q (expressionText b)) \<noteq> ''::'')"
  then show "splitEventName b = (expressionText b, None)"
    by (simp add: splitEventName_def eventMatch_None)
next
  assume a: "direction b = Mustache \<and> expressionText b = e @ ''::'' @ n
        \<and> (\<forall>c\<in>set (expressionText b). \<not> isLineTerminator c)
        \<and> (\<forall>q. length e < q \<longrightarrow> take 2 (drop q (expressionText b)) \<noteq> ''::'')"
  then have sep: "take 2 (drop (length e) (expressionText b)) = ''::''"
    by simp
  from a have single: "\<forall>c\<in>set (expressionText b). \<not> isLineTerminator c"
    and last: "\<forall>q. length e < q \<longrightarrow> take 2 (drop q (expressionText b)) \<noteq> ''::''"
    by blast+
  from single sep last have "eventMatch (expressionText b)
      = Some (take (length e) (expressionText b), drop (length e + 2) (expressionText b))"
    by (rule eventMatch_last)
  with a show "splitEventName b = (e, Some n)"
    by (simp add: splitEventName_def)
next
  assume ok: "parseExpression parseJs (fst (splitEventName b))
          (bindingSourceRange valueRange newlines off b) = Some (Success program)"
  let ?x = "newAttributeDatabindingExpression element
      (startIndex b = 2 \<and> endIndex b + 2 = length (value attr)) (direction b)
      (snd (splitEventName b)) attr (bindingSourceRange valueRange newlines off b)
      (fst (splitEventName b)) program"
  from ok have "attrBinding parseJs element attr valueRange off newlines b (rs, ws)
      = (rs @ [?x], ws @ warnings (base ?x))"
    by (simp add: attrBinding_def Let_def case_prod_beta pushParseResult_Success)
  moreover have "expressionText' (base ?x) = fst (splitEventName b)"
    by (simp add: newAttributeDatabindingExpression_def newDatabindingExpression_fields)
  moreover have "eventName ?x = snd (splitEventName b)"
    by (simp add: newAttributeDatabindingExpression_def)
  ultimately show "\<exists>x. attrBinding parseJs element attr valueRange off newlines b (rs, ws)
               = (rs @ [x], ws @ warnings (base x))
             \<and> expressionText' (base x) = fst (splitEventName b)
             \<and> eventName x = snd (splitEventName b)"
    by blast
qed (simp_all add: splitEventName_def dotStar_def isLineTerminator_def)

text \<open>The lemma at the mustache binding of \<^verbatim>\<open>{{val::changed}}\<close>, whose split text
  the sample parser accepts, at the same text as a bracket binding, and at the mustache
  binding with text \<^verbatim>\<open>foo\<close>.\<close>

lemma event_suffix_split_on_one_line_example:
  "splitEventName
     \<lparr>expressionText = ''val::changed'', startIndex = 2, endIndex = 14, direction = Mustache\<rparr>
     = (''val'', Some ''changed'')
   \<and> map eventName (fst (attrBinding sampleParseJs (elementNode ''input'' [])
        \<lparr>name = ''value'', value = ''{{val::changed}}''\<rparr>
        \<lparr>file' = ''index.html'', start = \<lparr>line = 3, column = 14\<rparr>,
         end' = \<lparr>line = 3, column = 30\<rparr>\<rparr> \<lparr>line' = 3, col = 14\<rparr> []
        \<lparr>expressionText = ''val::changed'', startIndex = 2, endIndex = 14, direction = Mustache\<rparr>
        ([], []))) = [Some ''changed'']
   \<and> map (expressionText' \<circ> base) (fst (attrBinding sampleParseJs (elementNode ''input'' [])
        \<lparr>name = ''value'', value = ''{{val::changed}}''\<rparr>
        \<lparr>file' = ''index.html'', start = \<lparr>line = 3, column = 14\<rparr>,
         end' = \<lparr>line = 3, column = 30\<rparr>\<rparr> \<lparr>line' = 3, col = 14\<rparr> []
        \<lparr>expressionText = ''val::changed'', startIndex = 2, endIndex = 14, direction = Mustache\<rparr>
        ([], []))) = [''val'']
   \<and> splitEventName
     \<lparr>expressionText = ''val::changed'', startIndex = 2, endIndex = 14, direction = Bracket\<rparr>
     = (''val::changed'', None)
   \<and> splitEventName
     \<lparr>expressionText = ''foo'', startIndex = 2, endIndex = 5, direction = Mustache\<rparr>
     = (''foo'', None)"
proof -
  let ?b = "\<lparr>expressionText = ''val::changed'', startIndex = 2, endIndex = 14,
             direction = Mustache\<rparr>"
  let ?v = "\<lparr>file' = ''index.html'', start = \<lparr>line = 3, column = 14\<rparr>,
             end' = \<lparr>line = 3, column = 30\<rparr>\<rparr>"
  let ?attr = "\<lparr>name = ''value'', value = ''{{val::changed}}''\<rparr>"
  have "indexOf ''::'' ''val::changed'' 4 = None"
    by (simp add: indexOf_def)
  from indexOf_no_occurrence [OF this]
  have last: "\<forall>q. length ''val'' < q \<longrightarrow> take 2 (drop q (expressionText ?b)) \<noteq> ''::''"
    by (simp add: numeral_2_eq_2)
  have single: "\<forall>c\<in>set (expressionText ?b). \<not> isLineTerminator c"
    by (simp add: isLineTerminator_def)
  have shape: "direction ?b = Mustache \<and> expressionText ?b = ''val'' @ ''::'' @ ''changed''"
    by simp
  note general = event_suffix_split_on_one_line [where b = ?b and e = "''val''"
      and n = "''changed''" and parseJs = sampleParseJs and valueRange = ?v and newlines = "[]"
      and off = "\<lparr>line' = 3, col = 14\<rparr>" and element = "elementNode ''input'' []"
      and attr = ?attr and rs = "[]" and ws = "[]"
      and program = "identifierProgram ''val''"]
  from general shape single last
  have split: "splitEventName ?b = (''val'', Some ''changed'')"
    by blast
  have parsed: "parseExpression sampleParseJs (fst (splitEventName ?b))
      (bindingSourceRange ?v [] \<lparr>line' = 3, col = 14\<rparr> ?b)
      = Some (Success (identifierProgram ''val''))"
    by (simp add: split parseExpression_def sampleParseJs_def)
  with general obtain x where
    x: "attrBinding sampleParseJs (elementNode ''input'' []) ?attr ?v \<lparr>line' = 3, col = 14\<rparr>
          [] ?b ([], []) = ([] @ [x], [] @ warnings (base x))"
      "expressionText' (base x) = fst (splitEventName ?b)"
      "eventName x = snd (splitEventName ?b)"
    by blast
  have "indexOf ''::'' ''foo'' 0 = None"
    by (simp add: indexOf_def)
  from indexOf_no_occurrence [OF this]
  have none: "\<forall>q. take 2 (drop q ''foo'') \<noteq> ''::''"
    by (simp add: numeral_2_eq_2)
  from event_suffix_split_on_one_line [where b = "\<lparr>expressionText = ''foo'', startIndex = 2,
      endIndex = 5, direction = Mustache\<rparr>"] none
  have plain: "splitEventName
     \<lparr>expressionText = ''foo'', startIndex = 2, endIndex = 5, direction = Mustache\<rparr>
     = (''foo'', None)"
    by simp
  from event_suffix_split_on_one_line [where b = "\<lparr>expressionText = ''val::changed'',
      startIndex = 2, endIndex = 14, direction = Bracket\<rparr>"]
  have bracket: "splitEventName
     \<lparr>expressionText = ''val::changed'', startIndex = 2, endIndex = 14, direction = Bracket\<rparr>
     = (''val::changed'', None)"
    by simp
  from split x plain bracket show ?thesis
    by simp
qed

text \<open>Claim C6. The code at an attribute value whose binding spans two lines,
  \<^verbatim>\<open>{{a(b,\<close>, newline, \<^verbatim>\<open>c)::changed}}\<close>: the scanner gives one mustache binding
  whose text ends in the suffix \<^verbatim>\<open>::changed\<close>; the claim asks for the expression text
  before the suffix, and the split gives \<^verbatim>\<open>c)\<close>, the part of the last line only,
  because the dot of \<^verbatim>\<open>/(.*)::(.*)/\<close> matches no line terminator. In \<^verbatim>\<open>p::q\<close>,
  newline, \<^verbatim>\<open>r::changed\<close> the trailing suffix is not the event name either.\<close>

theorem event_split_on_text_with_newline:
  "findDatabindingInString ''{{a(b,\<newline>c)::changed}}''
     = [\<lparr>expressionText = ''a(b,\<newline>c)::changed'', startIndex = 2, endIndex = 18,
         direction = Mustache\<rparr>]
   \<and> ''a(b,\<newline>c)::changed'' = ''a(b,\<newline>c)'' @ ''::'' @ ''changed''
   \<and> splitEventName
        \<lparr>expressionText = ''a(b,\<newline>c)::changed'', startIndex = 2, endIndex = 18,
         direction = Mustache\<rparr>
       = (''c)'', Some ''changed'')
   \<and> splitEventName
        \<lparr>expressionText = ''a(b,\<newline>c)::changed'', startIndex = 2, endIndex = 18,
         direction = Mustache\<rparr>
       \<noteq> (''a(b,\<newline>c)'', Some ''changed'')
   \<and> ''p::q\<newline>r::changed'' = ''p::q\<newline>r'' @ ''::'' @ ''changed''
   \<and> splitEventName
        \<lparr>expressionText = ''p::q\<newline>r::changed'', startIndex = 2, endIndex = 17,
         direction = Mustache\<rparr>
       = (''p'', Some ''q'')"
proof -
  have scanned: "findDatabindingInString ''{{a(b,\<newline>c)::changed}}''
     = [\<lparr>expressionText = ''a(b,\<newline>c)::changed'', startIndex = 2, endIndex = 18,
         direction = Mustache\<rparr>]"
    by (simp add: findDatabindingInString_def openersExec_def indexOf_def slice_def)
  have split: "eventMatch ''a(b,\<newline>c)::changed'' = Some (''c)'', ''changed'')"
    by (simp add: dotStar_def isLineTerminator_def)
  have split2: "eventMatch ''p::q\<newline>r::changed'' = Some (''p'', ''q'')"
    by (simp add: dotStar_def isLineTerminator_def)
  from scanned split split2 show ?thesis
    by (simp add: splitEventName_def)
qed

text \<open>On a text without line terminator the split is at the last separator: when
  \<^verbatim>\<open>::\<close> starts at index \<open>k\<close> and at no later index, the expression text is the text
  before \<open>k\<close> and the event name the text from \<open>k + 2\<close> on. The text \<^verbatim>\<open>a::b::c\<close>
  gives \<^verbatim>\<open>a::b\<close> and \<^verbatim>\<open>c\<close>.\<close>

lemma event_split_at_last_separator:
  "((\<forall>c\<in>set t. \<not> isLineTerminator c) \<and> take 2 (drop k t) = ''::''
      \<and> (\<forall>q. k < q \<longrightarrow> take 2 (drop q t) \<noteq> ''::'') \<longrightarrow>
      splitEventName \<lparr>expressionText = t, startIndex = i, endIndex = j, direction = Mustache\<rparr>
        = (take k t, Some (drop (k + 2) t)))
   \<and> splitEventName
        \<lparr>expressionText = ''a::b::c'', startIndex = i, endIndex = j, direction = Mustache\<rparr>
       = (''a::b'', Some ''c'')"
proof (intro conjI impI)
  assume a: "(\<forall>c\<in>set t. \<not> isLineTerminator c) \<and> take 2 (drop k t) = ''::''
      \<and> (\<forall>q. k < q \<longrightarrow> take 2 (drop q t) \<noteq> ''::'')"
  then have "\<forall>c\<in>set t. \<not> isLineTerminator c" and "take 2 (drop k t) = ''::''"
    and "\<forall>q. k < q \<longrightarrow> take 2 (drop q t) \<noteq> ''::''"
    by blast+
  then have "eventMatch t = Some (take k t, drop (k + 2) t)"
    by (rule eventMatch_last)
  then show
    "splitEventName \<lparr>expressionText = t, startIndex = i, endIndex = j, direction = Mustache\<rparr>
        = (take k t, Some (drop (k + 2) t))"
    by (simp add: splitEventName_def)
next
  show "splitEventName
        \<lparr>expressionText = ''a::b::c'', startIndex = i, endIndex = j, direction = Mustache\<rparr>
       = (''a::b'', Some ''c'')"
    by (simp add: splitEventName_def dotStar_def isLineTerminator_def)
qed

text \<open>The general part at \<^verbatim>\<open>a::b::c\<close>, whose last separator starts at index 4.\<close>

lemma event_split_at_last_separator_example:
  "take 2 (drop 4 ''a::b::c'') = ''::''
   \<and> indexOf ''::'' ''a::b::c'' 5 = None
   \<and> splitEventName
        \<lparr>expressionText = ''a::b::c'', startIndex = 2, endIndex = 9, direction = Mustache\<rparr>
       = (''a::b'', Some ''c'')"
proof -
  have sep: "take 2 (drop 4 ''a::b::c'') = ''::''"
    by simp
  have none: "indexOf ''::'' ''a::b::c'' 5 = None"
    by (simp add: indexOf_def)
  from indexOf_no_occurrence [OF none]
  have last: "\<forall>q. 4 < q \<longrightarrow> take 2 (drop q ''a::b::c'') \<noteq> ''::''"
    by (simp add: numeral_2_eq_2)
  have single: "\<forall>c\<in>set ''a::b::c''. \<not> isLineTerminator c"
    by (simp add: isLineTerminator_def)
  from event_split_at_last_separator [where t = "''a::b::c''" and k = 4 and i = 2 and j = 9]
    single sep last
  have "splitEventName
        \<lparr>expressionText = ''a::b::c'', startIndex = 2, endIndex = 9, direction = Mustache\<rparr>
       = (take 4 ''a::b::c'', Some (drop (4 + 2) ''a::b::c''))"
    by blast
  with sep none show ?thesis by simp
qed

text \<open>Claim C9. The code at the mustache text \<^verbatim>\<open>a::b\<close>, newline, \<^verbatim>\<open>c::d\<close>: the
  separator occurs twice and its last occurrence starts at index 6, with none after
  it; the claim asks for the split there, and the split is at the separator of the
  first line, the second line being dropped, because the dot of \<^verbatim>\<open>/(.*)::(.*)/\<close>
  matches no line terminator.\<close>

theorem event_split_before_last_separator_with_newline:
  "findDatabindingInString ''{{a::b\<newline>c::d}}''
     = [\<lparr>expressionText = ''a::b\<newline>c::d'', startIndex = 2, endIndex = 11,
         direction = Mustache\<rparr>]
   \<and> take 2 (drop 6 ''a::b\<newline>c::d'') = ''::''
   \<and> indexOf ''::'' ''a::b\<newline>c::d'' 7 = None
   \<and> splitEventName
        \<lparr>expressionText = ''a::b\<newline>c::d'', startIndex = 2, endIndex = 11, direction = Mustache\<rparr>
       = (''a'', Some ''b'')
   \<and> splitEventName
        \<lparr>expressionText = ''a::b\<newline>c::d'', startIndex = 2, endIndex = 11, direction = Mustache\<rparr>
       \<noteq> (''a::b\<newline>c'', Some ''d'')"
proof -
  have scanned: "findDatabindingInString ''{{a::b\<newline>c::d}}''
     = [\<lparr>expressionText = ''a::b\<newline>c::d'', startIndex = 2, endIndex = 11,
         direction = Mustache\<rparr>]"
    by (simp add: findDatabindingInString_def openersExec_def indexOf_def slice_def)
  have last: "take 2 (drop 6 ''a::b\<newline>c::d'') = ''::''"
    and none_after: "indexOf ''::'' ''a::b\<newline>c::d'' 7 = None"
    by (simp_all add: indexOf_def)
  have first_line: "dotStar ''a::b\<newline>c::d'' = ''a::b''"
    by (simp add: dotStar_def isLineTerminator_def)
  then have split: "eventMatch ''a::b\<newline>c::d'' = Some (''a'', ''b'')"
    by (simp add: dotStar_def isLineTerminator_def)
  from scanned last none_after split show ?thesis
    by (simp add: splitEventName_def)
qed

subsection \<open>The bindings of the scanner are delimited\<close>

lemma openersExecFrom_opener:
  "openersExecFrom s i = Some (j, m) \<Longrightarrow>
     take 2 (drop (j - i) s) = m \<and> (m = ''{{'' \<or> m = ''[['')"
proof (induction s arbitrary: i)
  case Nil
  then show ?case by simp
next
  case (Cons c cs)
  show ?case
  proof (cases "take 2 (c # cs) = ''{{'' \<or> take 2 (c # cs) = ''[[''")
    case True
    with Cons.prems show ?thesis
      by (auto split: if_splits)
  next
    case False
    then have "openersExecFrom (c # cs) i = openersExecFrom cs (Suc i)"
      by (simp only: openersExecFrom.simps de_Morgan_disj if_False)
    with Cons.prems have rec: "openersExecFrom cs (Suc i) = Some (j, m)"
      by (simp only:)
    from openersExecFrom_bounds [OF rec] have "j - i = Suc (j - Suc i)" by arith
    with Cons.IH [OF rec] show ?thesis by simp
  qed
qed

lemma openersExec_opener:
  assumes "openersExec str i = Some (j, m)"
  shows "take 2 (drop j str) = m \<and> (m = ''{{'' \<or> m = ''[['')"
proof -
  from assms have f: "openersExecFrom (drop i str) i = Some (j, m)"
    by (simp add: openersExec_def)
  from openersExecFrom_bounds [OF f] have "j - i + i = j" by simp
  with openersExecFrom_opener [OF f] show ?thesis by simp
qed

text \<open>Every binding the scanner emits lies between an opener and the matching closer.\<close>

lemma findDatabindingLoop_delimited:
  "b \<in> set (findDatabindingLoop str i acc) \<Longrightarrow>
     b \<in> set acc \<or>
     (2 \<le> startIndex b \<and> startIndex b \<le> endIndex b \<and> endIndex b + 2 \<le> length str
      \<and> take 2 (drop (startIndex b - 2) str) = (if direction b = Mustache then ''{{'' else ''[['')
      \<and> take 2 (drop (endIndex b) str) = (if direction b = Mustache then ''}}'' else '']]'')
      \<and> expressionText b = slice str (startIndex b) (endIndex b))"
proof (induction str i acc rule: findDatabindingLoop.induct)
  case (1 str lastIndex expressions)
  show ?case
  proof (cases "openersExec str lastIndex")
    case None
    with "1.prems" show ?thesis by simp
  next
    case (Some found)
    obtain j m where found: "found = (j, m)" by (cases found)
    let ?closers = "if m = ''{{'' then ''}}'' else '']]''"
    show ?thesis
    proof (cases "indexOf ?closers str (j + 2)")
      case None
      with Some found "1.prems" show ?thesis by simp
    next
      case (Some e)
      let ?new = "\<lparr>expressionText = slice str (j + 2) e, startIndex = j + 2, endIndex = e,
                    direction = (if m = ''{{'' then Mustache else Bracket)\<rparr>"
      from \<open>openersExec str lastIndex = Some found\<close> found
      have ex: "openersExec str lastIndex = Some (j, m)" by simp
      from ex Some "1.prems" have "b \<in> set (findDatabindingLoop str (e + 2) (expressions @ [?new]))"
        by simp
      from "1.IH" [OF \<open>openersExec str lastIndex = Some found\<close> found [symmetric] Some this]
      consider "b \<in> set expressions" | "b = ?new"
        | "2 \<le> startIndex b \<and> startIndex b \<le> endIndex b \<and> endIndex b + 2 \<le> length str
      \<and> take 2 (drop (startIndex b - 2) str) = (if direction b = Mustache then ''{{'' else ''[['')
      \<and> take 2 (drop (endIndex b) str) = (if direction b = Mustache then ''}}'' else '']]'')
      \<and> expressionText b = slice str (startIndex b) (endIndex b)"
        by auto
      then show ?thesis
      proof cases
        case 1
        then show ?thesis by simp
      next
        case 2
        from openersExec_bounds [OF ex] have jb: "j + 2 \<le> length str" by simp
        from indexOf_ge [OF Some jb] have je: "j + 2 \<le> e" .
        from indexOf_le_length [OF Some] have el: "e + 2 \<le> length str"
          by (simp split: if_splits)
        have "length ?closers = 2" by simp
        with indexOf_occurrence [OF Some] have cl: "take 2 (drop e str) = ?closers"
          by (simp only:)
        from openersExec_opener [OF ex] have op: "take 2 (drop j str) = m"
          and m: "m = ''{{'' \<or> m = ''[[''" by simp_all
        from 2 je el cl op m show ?thesis
          by auto
      next
        case 3
        then show ?thesis by simp
      qed
    qed
  qed
qed

lemma findDatabindingInString_delimited:
  assumes "b \<in> set (findDatabindingInString str)"
  shows "2 \<le> startIndex b" and "startIndex b \<le> endIndex b" and "endIndex b + 2 \<le> length str"
    and "take 2 (drop (startIndex b - 2) str) = (if direction b = Mustache then ''{{'' else ''[['')"
    and "take 2 (drop (endIndex b) str) = (if direction b = Mustache then ''}}'' else '']]'')"
    and "expressionText b = slice str (startIndex b) (endIndex b)"
  using findDatabindingLoop_delimited [of b str 0 "[]"] assms
  by (simp_all add: findDatabindingInString_def)

text \<open>The delimiters span the whole string exactly when the binding starts at 2 and ends
  two characters before the end.\<close>

lemma complete_iff_spans:
  assumes "b \<in> set (findDatabindingInString str)"
  shows "(startIndex b = 2 \<and> endIndex b + 2 = length str) \<longleftrightarrow>
         str = (if direction b = Mustache then ''{{'' else ''[['') @ expressionText b @
               (if direction b = Mustache then ''}}'' else '']]'')"
proof
  let ?op = "if direction b = Mustache then ''{{'' else ''[[''"
  let ?cl = "if direction b = Mustache then ''}}'' else '']]''"
  note d = findDatabindingInString_delimited [OF assms]
  assume c: "startIndex b = 2 \<and> endIndex b + 2 = length str"
  have "str = take 2 str @ drop 2 str"
    by (simp only: append_take_drop_id)
  also have "drop 2 str = take (endIndex b - 2) (drop 2 str) @ drop (endIndex b - 2) (drop 2 str)"
    by (simp only: append_take_drop_id)
  also have "drop (endIndex b - 2) (drop 2 str) = drop (endIndex b) str"
  proof -
    from d(1,2) c have "endIndex b - 2 + 2 = endIndex b" by simp
    then show ?thesis by (simp only: drop_drop)
  qed
  also have "drop (endIndex b) str = take 2 (drop (endIndex b) str)"
  proof -
    have "length (drop (endIndex b) str) = length str - endIndex b"
      by (rule length_drop)
    with c have "length (drop (endIndex b) str) \<le> 2" by arith
    then show ?thesis by (simp only: take_all)
  qed
  finally have "str = take 2 str @ take (endIndex b - 2) (drop 2 str) @ take 2 (drop (endIndex b) str)" .
  moreover from d(4) c have "take 2 str = ?op" by simp
  moreover from d(6) c have "take (endIndex b - 2) (drop 2 str) = expressionText b"
    by (simp add: slice_def)
  ultimately show "str = ?op @ expressionText b @ ?cl"
    using d(5) by (simp only:)
next
  let ?op = "if direction b = Mustache then ''{{'' else ''[[''"
  let ?cl = "if direction b = Mustache then ''}}'' else '']]''"
  note d = findDatabindingInString_delimited [OF assms]
  assume s: "str = ?op @ expressionText b @ ?cl"
  then have "length str = length (?op @ expressionText b @ ?cl)" by (simp only:)
  then have "length str = 4 + length (expressionText b)" by simp
  moreover from d(6) d(2,3) have "length (expressionText b) = endIndex b - startIndex b"
    by (simp add: slice_def)
  ultimately show "startIndex b = 2 \<and> endIndex b + 2 = length str"
    using d(1,2,3) by linarith
qed

subsection \<open>The loops only append\<close>










subsection \<open>Failures and the rest of the scan\<close>








subsection \<open>Complete attribute bindings\<close>

text \<open>Every expression the attribute loop adds was built from one of the bindings.\<close>

lemma attr_results_origin:
  "x \<in> set (fst (fold (attrBinding parseJs element attr v off nl) bs (rs, ws))) \<Longrightarrow>
     x \<in> set rs \<or>
     (\<exists>b\<in>set bs. \<exists>program.
        x = newAttributeDatabindingExpression element
              (startIndex b = 2 \<and> endIndex b + 2 = length (value attr)) (direction b)
              (snd (splitEventName b)) attr (bindingSourceRange v nl off b)
              (fst (splitEventName b)) program)"
proof (induction bs arbitrary: rs ws)
  case Nil
  then show ?case by simp
next
  case (Cons b bs)
  let ?parsed = "parseExpression parseJs (fst (splitEventName b)) (bindingSourceRange v nl off b)"
  obtain rs' ws' where step: "attrBinding parseJs element attr v off nl b (rs, ws) = (rs', ws')"
    by (cases "attrBinding parseJs element attr v off nl b (rs, ws)")
  with Cons.prems have "x \<in> set (fst (fold (attrBinding parseJs element attr v off nl) bs (rs', ws')))"
    by simp
  from Cons.IH [OF this] consider "x \<in> set rs'"
    | "\<exists>b\<in>set bs. \<exists>program.
        x = newAttributeDatabindingExpression element
              (startIndex b = 2 \<and> endIndex b + 2 = length (value attr)) (direction b)
              (snd (splitEventName b)) attr (bindingSourceRange v nl off b)
              (fst (splitEventName b)) program"
    by blast
  then show ?case
  proof cases
    case 1
    have "rs' = rs \<or> (\<exists>program. rs' = rs @ [newAttributeDatabindingExpression element
              (startIndex b = 2 \<and> endIndex b + 2 = length (value attr)) (direction b)
              (snd (splitEventName b)) attr (bindingSourceRange v nl off b)
              (fst (splitEventName b)) program])"
    proof (cases ?parsed)
      case None
      with step show ?thesis
        by (simp add: attrBinding_def Let_def case_prod_beta pushParseResult_None)
    next
      case (Some result)
      with step show ?thesis
        by (cases result)
          (auto simp add: attrBinding_def Let_def case_prod_beta pushParseResult_Failure
            pushParseResult_Success)
    qed
    with 1 show ?thesis by auto
  next
    case 2
    then show ?thesis by auto
  qed
qed

text \<open>Claim C5. Every expression that the attribute extractor produces comes from a
  binding of the value, with that binding's direction and split text, and its
  \<^verbatim>\<open>isCompleteBinding\<close> is the truth value of \<^verbatim>\<open>startIndex == 2\<close> and
  \<^verbatim>\<open>endIndex + 2 == value.length\<close>; it is true exactly when the value is the opener, the
  binding's text and the closer, and nothing else. The loop body sets the flag so for
  every binding that parses. The value \<^verbatim>\<open>{{bar}}\<close> gives a complete binding, the value
  \<^verbatim>\<open>x {{bar}} y\<close> an incomplete one.\<close>

theorem complete_binding_iff_whole_value:
  "(\<forall>x\<in>set (fst (extractDataBindingsFromAttr parseJs document element attr [] [])).
      \<exists>b\<in>set (findDatabindingInString (value attr)).
         direction' x = direction b
         \<and> expressionText' (base x) = fst (splitEventName b)
         \<and> isCompleteBinding x
             = Some (startIndex b = 2 \<and> endIndex b + 2 = length (value attr))
         \<and> (isCompleteBinding x = Some True \<longleftrightarrow>
              value attr = (if direction b = Mustache then ''{{'' else ''[['') @ expressionText b
                         @ (if direction b = Mustache then ''}}'' else '']]'')))
   \<and> (parseExpression parseJs (fst (splitEventName b)) (bindingSourceRange v nl off b)
        = Some (Success program) \<longrightarrow>
      (\<exists>x. attrBinding parseJs element attr v off nl b (rs, ws) = (rs @ [x], ws @ warnings (base x))
           \<and> isCompleteBinding x
               = Some (startIndex b = 2 \<and> endIndex b + 2 = length (value attr))))
   \<and> map isCompleteBinding
        (fst (extractDataBindingsFromAttr sampleParseJs (documentAt r) element
                \<lparr>name = ''foo'', value = ''{{bar}}''\<rparr> [] [])) = [Some True]
   \<and> map isCompleteBinding
        (fst (extractDataBindingsFromAttr sampleParseJs (documentAt r) element
                \<lparr>name = ''foo'', value = ''x {{bar}} y''\<rparr> [] [])) = [Some False]"
proof (intro conjI impI ballI)
  fix x
  assume x: "x \<in> set (fst (extractDataBindingsFromAttr parseJs document element attr [] []))"
  then obtain valueRange where
    "x \<in> set (fst (fold (attrBinding parseJs element attr valueRange
                  \<lparr>line' = line (start valueRange), col = column (start valueRange)\<rparr>
                  (findNewlineIndexes (value attr)))
            (findDatabindingInString (value attr)) ([], [])))"
    by (auto simp add: extractDataBindingsFromAttr_def Let_def
        split: if_splits option.splits)
  from attr_results_origin [OF this] obtain b program where
    b: "b \<in> set (findDatabindingInString (value attr))"
    and built: "x = newAttributeDatabindingExpression element
              (startIndex b = 2 \<and> endIndex b + 2 = length (value attr)) (direction b)
              (snd (splitEventName b)) attr
              (bindingSourceRange valueRange (findNewlineIndexes (value attr))
                 \<lparr>line' = line (start valueRange), col = column (start valueRange)\<rparr> b)
              (fst (splitEventName b)) program"
    by auto
  from built have flag: "isCompleteBinding x
      = Some (startIndex b = 2 \<and> endIndex b + 2 = length (value attr))"
    and dir: "direction' x = direction b"
    and parsedText: "expressionText' (base x) = fst (splitEventName b)"
    by (simp_all add: newAttributeDatabindingExpression_def newDatabindingExpression_fields)
  from flag complete_iff_spans [OF b]
  have "isCompleteBinding x = Some True \<longleftrightarrow>
      value attr = (if direction b = Mustache then ''{{'' else ''[['') @ expressionText b
                 @ (if direction b = Mustache then ''}}'' else '']]'')"
    by simp
  with b flag dir parsedText
  show "\<exists>b\<in>set (findDatabindingInString (value attr)).
         direction' x = direction b
         \<and> expressionText' (base x) = fst (splitEventName b)
         \<and> isCompleteBinding x
             = Some (startIndex b = 2 \<and> endIndex b + 2 = length (value attr))
         \<and> (isCompleteBinding x = Some True \<longleftrightarrow>
              value attr = (if direction b = Mustache then ''{{'' else ''[['') @ expressionText b
                         @ (if direction b = Mustache then ''}}'' else '']]''))"
    by blast
next
  assume ok: "parseExpression parseJs (fst (splitEventName b)) (bindingSourceRange v nl off b)
      = Some (Success program)"
  let ?x = "newAttributeDatabindingExpression element
      (startIndex b = 2 \<and> endIndex b + 2 = length (value attr)) (direction b)
      (snd (splitEventName b)) attr (bindingSourceRange v nl off b)
      (fst (splitEventName b)) program"
  from ok have "attrBinding parseJs element attr v off nl b (rs, ws)
      = (rs @ [?x], ws @ warnings (base ?x))"
    by (simp add: attrBinding_def Let_def case_prod_beta pushParseResult_Success)
  moreover have "isCompleteBinding ?x
      = Some (startIndex b = 2 \<and> endIndex b + 2 = length (value attr))"
    by (simp add: newAttributeDatabindingExpression_def)
  ultimately show "\<exists>x. attrBinding parseJs element attr v off nl b (rs, ws)
        = (rs @ [x], ws @ warnings (base x))
      \<and> isCompleteBinding x
          = Some (startIndex b = 2 \<and> endIndex b + 2 = length (value attr))"
    by blast
next
  have bindings: "findDatabindingInString ''{{bar}}''
      = [\<lparr>expressionText = ''bar'', startIndex = 2, endIndex = 5, direction = Mustache\<rparr>]"
    by (simp add: findDatabindingInString_def openersExec_def indexOf_def slice_def)
  show "map isCompleteBinding
        (fst (extractDataBindingsFromAttr sampleParseJs (documentAt r) element
                \<lparr>name = ''foo'', value = ''{{bar}}''\<rparr> [] [])) = [Some True]"
    by (simp add: extractDataBindingsFromAttr_def documentAt_def bindings attrBinding_def
        splitEventName_def dotStar_def isLineTerminator_def parseExpression_def
        sampleParseJs_def pushParseResult_def newAttributeDatabindingExpression_def Let_def)
next
  have bindings: "findDatabindingInString ''x {{bar}} y''
      = [\<lparr>expressionText = ''bar'', startIndex = 4, endIndex = 7, direction = Mustache\<rparr>]"
    by (simp add: findDatabindingInString_def openersExec_def indexOf_def slice_def)
  show "map isCompleteBinding
        (fst (extractDataBindingsFromAttr sampleParseJs (documentAt r) element
                \<lparr>name = ''foo'', value = ''x {{bar}} y''\<rparr> [] [])) = [Some False]"
    by (simp add: extractDataBindingsFromAttr_def documentAt_def bindings attrBinding_def
        splitEventName_def dotStar_def isLineTerminator_def parseExpression_def
        sampleParseJs_def pushParseResult_def newAttributeDatabindingExpression_def Let_def)
qed

text \<open>The theorem at the attribute \<^verbatim>\<open>foo="{{bar}}"\<close>.\<close>

theorem complete_binding_iff_whole_value_witness:
  "map isCompleteBinding
     (fst (attrBinding sampleParseJs (elementNode ''div'' []) \<lparr>name = ''foo'', value = ''{{bar}}''\<rparr>
        \<lparr>file' = ''index.html'', start = \<lparr>line = 2, column = 10\<rparr>,
         end' = \<lparr>line = 2, column = 17\<rparr>\<rparr> \<lparr>line' = 2, col = 10\<rparr> []
        \<lparr>expressionText = ''bar'', startIndex = 2, endIndex = 5, direction = Mustache\<rparr>
        ([], []))) = [Some True]
   \<and> fst (extractDataBindingsFromAttr sampleParseJs
        (documentAt \<lparr>file' = ''index.html'', start = \<lparr>line = 2, column = 10\<rparr>,
                     end' = \<lparr>line = 2, column = 17\<rparr>\<rparr>)
        (elementNode ''div'' []) \<lparr>name = ''foo'', value = ''{{bar}}''\<rparr> [] []) \<noteq> []
   \<and> (\<exists>b\<in>set (findDatabindingInString ''{{bar}}'').
        isCompleteBinding (hd (fst (extractDataBindingsFromAttr sampleParseJs
          (documentAt \<lparr>file' = ''index.html'', start = \<lparr>line = 2, column = 10\<rparr>,
                       end' = \<lparr>line = 2, column = 17\<rparr>\<rparr>)
          (elementNode ''div'' []) \<lparr>name = ''foo'', value = ''{{bar}}''\<rparr> [] [])))
        = Some (startIndex b = 2 \<and> endIndex b + 2 = length ''{{bar}}''))"
proof -
  let ?v = "\<lparr>file' = ''index.html'', start = \<lparr>line = 2, column = 10\<rparr>,
             end' = \<lparr>line = 2, column = 17\<rparr>\<rparr>"
  let ?off = "\<lparr>line' = 2, col = 10\<rparr>"
  let ?b = "\<lparr>expressionText = ''bar'', startIndex = 2, endIndex = 5, direction = Mustache\<rparr>"
  let ?element = "elementNode ''div'' []"
  let ?attr = "\<lparr>name = ''foo'', value = ''{{bar}}''\<rparr>"
  let ?results = "fst (extractDataBindingsFromAttr sampleParseJs (documentAt ?v) ?element ?attr
      [] [])"
  note general = complete_binding_iff_whole_value
    [where parseJs = sampleParseJs and document = "documentAt ?v" and element = ?element
      and attr = ?attr and b = ?b and v = ?v and nl = "[]" and off = ?off
      and program = "identifierProgram ''bar''" and rs = "[]" and ws = "[]" and r = ?v]
  have parses: "parseExpression sampleParseJs (fst (splitEventName ?b))
      (bindingSourceRange ?v [] ?off ?b) = Some (Success (identifierProgram ''bar''))"
    by (simp add: splitEventName_def dotStar_def isLineTerminator_def parseExpression_def
        sampleParseJs_def)
  with general obtain x where
    x: "attrBinding sampleParseJs ?element ?attr ?v ?off [] ?b ([], [])
          = ([] @ [x], [] @ warnings (base x))"
      "isCompleteBinding x = Some (startIndex ?b = 2 \<and> endIndex ?b + 2 = length (value ?attr))"
    by blast
  then have one: "map isCompleteBinding
      (fst (attrBinding sampleParseJs ?element ?attr ?v ?off [] ?b ([], []))) = [Some True]"
    by simp
  from general have "map isCompleteBinding ?results = [Some True]"
    by blast
  then have nonempty: "?results \<noteq> []"
    by auto
  then have "hd ?results \<in> set ?results"
    by (rule hd_in_set)
  with general have "\<exists>b\<in>set (findDatabindingInString (value ?attr)).
      isCompleteBinding (hd ?results)
        = Some (startIndex b = 2 \<and> endIndex b + 2 = length (value ?attr))"
    by blast
  with one nonempty show ?thesis
    by simp
qed

end
